theory Spec2Isabelle
  imports Main
begin

section \<open>Python strings and the regular-expression classes used by slugify\<close>

text \<open>
  A Python \<open>str\<close> is a sequence of code points. It is modelled as \<open>string\<close>, one
  \<open>char\<close> per code point, which covers the code points U+0000 to U+00FF. The three
  tables below are CPython's for that range: \<open>str.lower\<close>, and the classes
  \<open>\<bsol>s\<close> and \<open>\<bsol>w\<close> of the \<open>re\<close> module on \<open>str\<close> patterns.
\<close>

definition code_point :: "char \<Rightarrow> nat" where
  "code_point c = of_char c"

definition is_space :: "char \<Rightarrow> bool" where
  \<comment> \<open>\<open>\<bsol>s\<close>: tab to carriage return, the separators 0x1C to 0x1F, space, NEL, NBSP\<close>
  "is_space c =
     (let n = code_point c
      in (9 \<le> n \<and> n \<le> 13) \<or> (28 \<le> n \<and> n \<le> 32) \<or> n = 133 \<or> n = 160)"

definition is_alnum :: "char \<Rightarrow> bool" where
  \<comment> \<open>alphabetic, decimal, digit or numeric\<close>
  "is_alnum c =
     (let n = code_point c
      in (48 \<le> n \<and> n \<le> 57) \<or> (65 \<le> n \<and> n \<le> 90) \<or> (97 \<le> n \<and> n \<le> 122)
         \<or> n = 170 \<or> n = 178 \<or> n = 179 \<or> n = 181 \<or> n = 185 \<or> n = 186
         \<or> (188 \<le> n \<and> n \<le> 190) \<or> (192 \<le> n \<and> n \<le> 214)
         \<or> (216 \<le> n \<and> n \<le> 246) \<or> (248 \<le> n \<and> n \<le> 255))"

definition is_word :: "char \<Rightarrow> bool" where
  \<comment> \<open>\<open>\<bsol>w\<close>: alphanumeric or the underscore\<close>
  "is_word c = (is_alnum c \<or> c = CHR ''_'')"

definition is_upper :: "char \<Rightarrow> bool" where
  \<comment> \<open>the code points that \<open>str.lower\<close> changes\<close>
  "is_upper c =
     (let n = code_point c
      in (65 \<le> n \<and> n \<le> 90) \<or> (192 \<le> n \<and> n \<le> 214) \<or> (216 \<le> n \<and> n \<le> 222))"

definition lower_char :: "char \<Rightarrow> char" where
  "lower_char c = (if is_upper c then char_of (code_point c + 32) else c)"

definition lower :: "string \<Rightarrow> string" where
  \<comment> \<open>\<open>text.lower()\<close>\<close>
  "lower s = map lower_char s"

definition sub_delete :: "(char \<Rightarrow> bool) \<Rightarrow> string \<Rightarrow> string" where
  \<comment> \<open>\<open>re.sub(r"[cls]", "", s)\<close>: every character of the class is removed\<close>
  "sub_delete cls s = filter (\<lambda>c. \<not> cls c) s"

function sub_runs :: "(char \<Rightarrow> bool) \<Rightarrow> string \<Rightarrow> string \<Rightarrow> string" where
  \<comment> \<open>\<open>re.sub(r"[cls]+", repl, s)\<close>: every maximal run of the class becomes \<open>repl\<close>\<close>
  "sub_runs cls repl [] = []"
| "sub_runs cls repl (c # cs) =
     (if cls c then repl @ sub_runs cls repl (dropWhile cls cs)
      else c # sub_runs cls repl cs)"
  by pat_completeness auto
termination
  by (relation "measure (\<lambda>(cls, repl, s). length s)")
     (auto simp: length_dropWhile_le less_Suc_eq_le)

definition strip :: "string \<Rightarrow> string \<Rightarrow> string" where
  \<comment> \<open>\<open>s.strip(chars)\<close>: leading and trailing characters of \<open>chars\<close> are removed\<close>
  "strip s chars =
     rev (dropWhile (\<lambda>c. c \<in> set chars) (rev (dropWhile (\<lambda>c. c \<in> set chars) s)))"

definition slice_to :: "string \<Rightarrow> int \<Rightarrow> string" where
  \<comment> \<open>\<open>s[:n]\<close>; a negative \<open>n\<close> counts from the end\<close>
  "slice_to s n = (if 0 \<le> n then take (nat n) s else take (length s - nat (- n)) s)"

section \<open>slugify\<close>

text \<open>
  \<^verbatim>\<open>
  def slugify(text: str, max_len: int = 60) -> str:
      slug = re.sub(r"[^\w\s-]", "", text.lower())
      slug = re.sub(r"[\s_]+", "-", slug).strip("-")
      return slug[:max_len]
  \<close>
  The function is defined once in each script.
\<close>

definition gemini_slugify :: "string \<Rightarrow> int \<Rightarrow> string" where
  "gemini_slugify text max_len =
     (let slug = sub_delete (\<lambda>c. \<not> (is_word c \<or> is_space c \<or> c = CHR ''-'')) (lower text);
          slug = strip (sub_runs (\<lambda>c. is_space c \<or> c = CHR ''_'') ''-'' slug) ''-''
      in slice_to slug max_len)"

definition openai_slugify :: "string \<Rightarrow> int \<Rightarrow> string" where
  "openai_slugify text max_len =
     (let slug = sub_delete (\<lambda>c. \<not> (is_word c \<or> is_space c \<or> c = CHR ''-'')) (lower text);
          slug = strip (sub_runs (\<lambda>c. is_space c \<or> c = CHR ''_'') ''-'' slug) ''-''
      in slice_to slug max_len)"

section \<open>Paths, timestamps and the output path resolver\<close>

text \<open>
  A \<open>pathlib\<close> POSIX path is its root (empty, one slash or two slashes) and its
  components. Parsing a string drops empty and \<open>.\<close> components; joining a path with a
  string that has a root of its own gives the path of that string alone.
\<close>

datatype path = Path (root: string) (parts: "string list")

fun split_sep :: "char \<Rightarrow> string \<Rightarrow> string list" where
  \<comment> \<open>\<open>s.split(sep)\<close>\<close>
  "split_sep sep [] = [[]]"
| "split_sep sep (c # cs) =
     (if c = sep then [] # split_sep sep cs
      else (case split_sep sep cs of [] \<Rightarrow> [[c]] | w # ws \<Rightarrow> (c # w) # ws))"

definition splitroot :: "string \<Rightarrow> string \<times> string" where
  \<comment> \<open>\<open>posixpath.splitroot\<close>, without the drive, which is always empty\<close>
  "splitroot p =
     (if take 1 p \<noteq> ''/'' then ([], p)
      else if take 1 (drop 1 p) \<noteq> ''/'' \<or> take 1 (drop 2 p) = ''/'' then (''/'', drop 1 p)
      else (take 2 p, drop 2 p))"

definition parse_path :: "string \<Rightarrow> path" where
  \<comment> \<open>\<open>Path(s)\<close>\<close>
  "parse_path s =
     (case splitroot s of
        (r, rel) \<Rightarrow> Path r (filter (\<lambda>x. x \<noteq> [] \<and> x \<noteq> ''.'') (split_sep CHR ''/'' rel)))"

definition truediv :: "path \<Rightarrow> string \<Rightarrow> path" where
  \<comment> \<open>\<open>p / s\<close>\<close>
  "truediv p s =
     (let q = parse_path s
      in if root q \<noteq> [] then q else Path (root p) (parts p @ parts q))"

definition parent :: "path \<Rightarrow> path" where
  \<comment> \<open>\<open>p.parent\<close>\<close>
  "parent p = Path (root p) (butlast (parts p))"

fun join_sep :: "string \<Rightarrow> string list \<Rightarrow> string" where
  \<comment> \<open>\<open>sep.join(xs)\<close>\<close>
  "join_sep sep [] = []"
| "join_sep sep [x] = x"
| "join_sep sep (x # y # ys) = x @ sep @ join_sep sep (y # ys)"

definition str_path :: "path \<Rightarrow> string" where
  \<comment> \<open>\<open>str(p)\<close>\<close>
  "str_path p =
     (if root p = [] \<and> parts p = [] then ''.'' else root p @ join_sep ''/'' (parts p))"

text \<open>
  \<open>datetime.now().strftime("%Y%m%d_%H%M%S")\<close>: the fields in decimal, the year padded with
  zeros to four digits and the others to two. Some C libraries do not pad a year below
  1000; the statements about the format below are for years from 1000 on, where all agree.
\<close>

record datetime =
  year :: nat
  month :: nat
  day :: nat
  hour :: nat
  minute :: nat
  second :: nat

definition digit_char :: "nat \<Rightarrow> char" where
  "digit_char d = char_of (48 + d)"

fun str_nat :: "nat \<Rightarrow> string" where
  "str_nat n = (if n < 10 then [digit_char n] else str_nat (n div 10) @ [digit_char (n mod 10)])"

declare str_nat.simps [simp del]

definition zero_pad :: "nat \<Rightarrow> nat \<Rightarrow> string" where
  "zero_pad w n = replicate (w - length (str_nat n)) CHR ''0'' @ str_nat n"

definition strftime :: "datetime \<Rightarrow> string" where
  "strftime t =
     zero_pad 4 (year t) @ zero_pad 2 (month t) @ zero_pad 2 (day t) @ ''_''
       @ zero_pad 2 (hour t) @ zero_pad 2 (minute t) @ zero_pad 2 (second t)"

text \<open>
  The command line after \<open>argparse\<close>: \<open>--instruction\<close> is required, \<open>--output\<close> (the field \<open>output_arg\<close>)
  defaults to \<open>None\<close>, and the OpenAI script has \<open>--model\<close> as well. \<open>SCRIPT_DIR\<close>, the
  resolved directory of the script, is a parameter.
\<close>

record args =
  instruction :: string
  output_arg :: "string option"

record openai_args = args +
  model :: string

definition truthy :: "string option \<Rightarrow> bool" where
  \<comment> \<open>\<open>if args.output:\<close> holds for a string that is not empty\<close>
  "truthy x = (case x of None \<Rightarrow> False | Some s \<Rightarrow> s \<noteq> [])"

definition gemini_OUTPUT_DIR :: "path \<Rightarrow> path" where
  "gemini_OUTPUT_DIR script_dir = truediv script_dir ''gemini-deep-research_data''"

definition openai_OUTPUT_DIR :: "path \<Rightarrow> path" where
  "openai_OUTPUT_DIR script_dir = truediv script_dir ''openai-deep-research_data''"

definition CONFIG_PATH :: "path \<Rightarrow> path" where
  "CONFIG_PATH script_dir = truediv script_dir ''config.json''"

definition gemini_output_path :: "path \<Rightarrow> datetime \<Rightarrow> 'a args_scheme \<Rightarrow> path" where
  \<comment> \<open>the \<open>output_path\<close> that \<open>main\<close> computes\<close>
  "gemini_output_path script_dir now a =
     (if truthy (output_arg a) then truediv (gemini_OUTPUT_DIR script_dir) (the (output_arg a))
      else
        (let timestamp = strftime now;
             slug = gemini_slugify (instruction a) 60
         in truediv (gemini_OUTPUT_DIR script_dir) (timestamp @ ''_'' @ slug @ ''.md'')))"

definition openai_output_path :: "path \<Rightarrow> datetime \<Rightarrow> 'a args_scheme \<Rightarrow> path" where
  "openai_output_path script_dir now a =
     (if truthy (output_arg a) then truediv (openai_OUTPUT_DIR script_dir) (the (output_arg a))
      else
        (let timestamp = strftime now;
             slug = openai_slugify (instruction a) 60
         in truediv (openai_OUTPUT_DIR script_dir) (timestamp @ ''_'' @ slug @ ''.md'')))"

section \<open>The process: console, file system operations, exits\<close>

text \<open>
  A run threads one state: what was written to \<open>sys.stdout\<close> and \<open>sys.stderr\<close> (one
  entry per \<open>print\<close> call), the file system operations performed, and the locals
  \<open>interaction_id\<close> (Gemini only) and \<open>report\<close> of \<open>run_deep_research\<close>.
  \<open>sys.exit(n)\<close> and an uncaught exception end the run; both are values. The
  traceback that an uncaught exception prints is left out.

  The two file system calls of a run, \<open>mkdir(parents=True, exist_ok=True)\<close> on the
  parent of the output path and \<open>write_text\<close> on the output path, are answered by the
  operating system: each takes effect, or raises (\<open>IsADirectoryError\<close> for a path that
  is a directory, \<open>FileExistsError\<close> or \<open>NotADirectoryError\<close> where a component is a
  file, \<open>PermissionError\<close>, and so on). What it answers is a parameter of the run, as
  the stream is: \<open>None\<close> when the call takes effect, the name of the exception
  otherwise. \<open>fs_ops\<close> lists the calls that took effect.
\<close>

datatype fs_op = Mkdir path | WriteText path string

datatype abort = SysExit int | Uncaught string

record os_env =
  mkdir_raises :: "path \<Rightarrow> string option"
  write_text_raises :: "path \<Rightarrow> string \<Rightarrow> string option"

record run_state =
  stdout :: "string list"
  stderr :: "string list"
  fs_ops :: "fs_op list"
  interaction_id :: "string option"
  report :: string

definition initial_state :: run_state where
  "initial_state = \<lparr>stdout = [], stderr = [], fs_ops = [], interaction_id = None, report = []\<rparr>"

definition nl :: string where
  "nl = [CHR 0x0A]"

definition print :: "string \<Rightarrow> string \<Rightarrow> run_state \<Rightarrow> run_state" where
  \<comment> \<open>\<open>print(s, end=e)\<close>; \<open>e\<close> is the newline when it is not given\<close>
  "print s e st = st\<lparr>stdout := stdout st @ [s @ e]\<rparr>"

definition print_err :: "string \<Rightarrow> run_state \<Rightarrow> run_state" where
  \<comment> \<open>\<open>print(s, file=sys.stderr)\<close>\<close>
  "print_err s st = st\<lparr>stderr := stderr st @ [s @ nl]\<rparr>"

definition exit_code :: "abort + unit \<Rightarrow> int" where
  \<comment> \<open>the exit status of the process: an uncaught exception gives 1\<close>
  "exit_code r = (case r of Inr _ \<Rightarrow> 0 | Inl (SysExit n) \<Rightarrow> n | Inl (Uncaught _) \<Rightarrow> 1)"

section \<open>Config loader\<close>

text \<open>
  The file at \<open>CONFIG_PATH\<close> is absent, is not valid JSON, or holds an object, here the
  list of its string fields.
\<close>

datatype config_file = Absent | Invalid | Json "(string \<times> string) list"

definition load_config ::
  "path \<Rightarrow> config_file \<Rightarrow> run_state \<Rightarrow> (abort + (string \<times> string) list) \<times> run_state" where
  "load_config script_dir f st =
     (case f of
        Absent \<Rightarrow>
          (Inl (SysExit 1),
           print_err (''Error: '' @ str_path (CONFIG_PATH script_dir)
                      @ '' not found. Copy config.example.json and fill in your API key.'') st)
      | Invalid \<Rightarrow> (Inl (Uncaught ''JSONDecodeError''), st)
      | Json kv \<Rightarrow> (Inr kv, st))"

section \<open>Stream reducer, Gemini\<close>

text \<open>
  A chunk of the interactions stream, with the attributes the loop reads:
  \<open>chunk.event_type\<close>, \<open>chunk.interaction.id\<close>, \<open>chunk.delta.type\<close>,
  \<open>chunk.delta.text\<close> and \<open>chunk.delta.content.text\<close>.
\<close>

record gemini_chunk =
  event_type :: string
  chunk_interaction_id :: string
  delta_type :: string
  delta_text :: string
  delta_content_text :: string

definition gemini_body :: "gemini_chunk \<Rightarrow> run_state \<Rightarrow> (abort + unit) \<times> run_state" where
  \<comment> \<open>the body of \<open>for chunk in stream\<close>\<close>
  "gemini_body chunk st =
     (if event_type chunk = ''interaction.start'' then
        (Inr (),
         print (''[Started] Interaction ID: '' @ chunk_interaction_id chunk @ nl) nl
           (st\<lparr>interaction_id := Some (chunk_interaction_id chunk)\<rparr>))
      else if event_type chunk = ''content.delta'' then
        (if delta_type chunk = ''text'' then
           (Inr (), print (delta_text chunk) [] (st\<lparr>report := report st @ delta_text chunk\<rparr>))
         else if delta_type chunk = ''thought_summary'' then
           (Inr (), print (''[Thinking] '' @ delta_content_text chunk) nl st)
         else (Inr (), st))
      else if event_type chunk = ''interaction.complete'' then
        (Inr (), print (nl @ nl @ ''[Complete] Research finished.'') nl st)
      else if event_type chunk = ''error'' then
        (Inl (SysExit 1), print_err (nl @ ''[Error] Research failed.'') st)
      else (Inr (), st))"

fun gemini_for :: "gemini_chunk list \<Rightarrow> run_state \<Rightarrow> (abort + unit) \<times> run_state" where
  "gemini_for [] st = (Inr (), st)"
| "gemini_for (chunk # stream) st =
     (case gemini_body chunk st of
        (Inl a, st') \<Rightarrow> (Inl a, st')
      | (Inr _, st') \<Rightarrow> gemini_for stream st')"

definition save_report :: "os_env \<Rightarrow> path \<Rightarrow> run_state \<Rightarrow> (abort + unit) \<times> run_state" where
  \<comment> \<open>the end of \<open>run_deep_research\<close>, from \<open>if not report\<close> on; the same in both scripts\<close>
  "save_report os output_path st =
     (if report st = [] then
        (Inl (SysExit 1), print_err ''Error: No report content received.'' st)
      else
        (case mkdir_raises os (parent output_path) of
           Some exn \<Rightarrow> (Inl (Uncaught exn), st)
         | None \<Rightarrow>
             (let st1 = st\<lparr>fs_ops := fs_ops st @ [Mkdir (parent output_path)]\<rparr>
              in case write_text_raises os output_path (report st) of
                   Some exn \<Rightarrow> (Inl (Uncaught exn), st1)
                 | None \<Rightarrow>
                     (Inr (),
                      print (nl @ ''Report saved to: '' @ str_path output_path) nl
                        (st1\<lparr>fs_ops := fs_ops st1 @ [WriteText output_path (report st)]\<rparr>)))))"

definition gemini_run_deep_research ::
  "path \<Rightarrow> config_file \<Rightarrow> os_env \<Rightarrow> gemini_chunk list \<Rightarrow> string \<Rightarrow> path \<Rightarrow> run_state
     \<Rightarrow> (abort + unit) \<times> run_state" where
  \<comment> \<open>\<open>stream\<close> is the finite sequence of chunks that \<open>client.interactions.create\<close>
      delivers; a failure of the client itself is outside the model\<close>
  "gemini_run_deep_research script_dir cfg os stream instr output_path st =
     (case load_config script_dir cfg st of
        (Inl a, st1) \<Rightarrow> (Inl a, st1)
      | (Inr config, st1) \<Rightarrow>
          (case map_of config ''api_key'' of
             None \<Rightarrow> (Inl (Uncaught ''KeyError''), st1)
           | Some api_key \<Rightarrow>
               (let st2 = print ''Starting deep research...'' nl st1;
                    st3 = print (''Instruction: '' @ instr @ nl) nl st2;
                    st4 = st3\<lparr>interaction_id := None, report := []\<rparr>
                in case gemini_for stream st4 of
                     (Inl a, st5) \<Rightarrow> (Inl a, st5)
                   | (Inr _, st5) \<Rightarrow> save_report os output_path st5)))"

definition gemini_main ::
  "path \<Rightarrow> config_file \<Rightarrow> os_env \<Rightarrow> datetime \<Rightarrow> gemini_chunk list \<Rightarrow> args
     \<Rightarrow> (abort + unit) \<times> run_state" where
  "gemini_main script_dir cfg os now stream a =
     gemini_run_deep_research script_dir cfg os stream (instruction a)
       (gemini_output_path script_dir now a) initial_state"

section \<open>Stream reducer, OpenAI\<close>

text \<open>
  An event of the responses stream, with the attributes the loop reads: \<open>event.type\<close>,
  \<open>event.response.id\<close>, \<open>event.item.type\<close>, \<open>event.delta\<close>, and \<open>str(event)\<close>.
\<close>

record openai_event =
  ev_type :: string
  response_id :: string
  item_type :: string
  delta :: string
  event_str :: string

definition openai_body :: "openai_event \<Rightarrow> run_state \<Rightarrow> (abort + unit) \<times> run_state" where
  \<comment> \<open>the body of \<open>for event in stream\<close>\<close>
  "openai_body event st =
     (let event_type = ev_type event
      in if event_type = ''response.created'' then
           (Inr (), print (''[Started] Response ID: '' @ response_id event @ nl) nl st)
         else if event_type = ''response.output_item.added'' then
           (Inr (), print (''[+] Output item: '' @ item_type event) nl st)
         else if event_type = ''response.output_text.delta'' then
           (Inr (), print (delta event) [] (st\<lparr>report := report st @ delta event\<rparr>))
         else if event_type = ''response.reasoning_summary_text.delta'' then
           (Inr (), print (''[Thinking] '' @ delta event) nl st)
         else if event_type = ''response.completed'' then
           (Inr (), print (nl @ nl @ ''[Complete] Research finished.'') nl st)
         else if event_type = ''error'' then
           (Inl (SysExit 1), print_err (nl @ ''[Error] '' @ event_str event) st)
         else (Inr (), st))"

fun openai_for :: "openai_event list \<Rightarrow> run_state \<Rightarrow> (abort + unit) \<times> run_state" where
  "openai_for [] st = (Inr (), st)"
| "openai_for (event # stream) st =
     (case openai_body event st of
        (Inl a, st') \<Rightarrow> (Inl a, st')
      | (Inr _, st') \<Rightarrow> openai_for stream st')"

definition openai_run_deep_research ::
  "path \<Rightarrow> config_file \<Rightarrow> os_env \<Rightarrow> openai_event list \<Rightarrow> string \<Rightarrow> path \<Rightarrow> string
     \<Rightarrow> run_state \<Rightarrow> (abort + unit) \<times> run_state" where
  \<comment> \<open>\<open>stream\<close> is the finite sequence of events that \<open>client.responses.create\<close>
      delivers; a failure of the client itself is outside the model\<close>
  "openai_run_deep_research script_dir cfg os stream instr output_path mdl st =
     (case load_config script_dir cfg st of
        (Inl a, st1) \<Rightarrow> (Inl a, st1)
      | (Inr config, st1) \<Rightarrow>
          (case map_of config ''api_key'' of
             None \<Rightarrow> (Inl (Uncaught ''KeyError''), st1)
           | Some api_key \<Rightarrow>
               (let st2 = print (''Starting deep research with '' @ mdl @ ''...'') nl st1;
                    st3 = print (''Instruction: '' @ instr @ nl) nl st2;
                    st4 = st3\<lparr>report := []\<rparr>
                in case openai_for stream st4 of
                     (Inl a, st5) \<Rightarrow> (Inl a, st5)
                   | (Inr _, st5) \<Rightarrow> save_report os output_path st5)))"

definition openai_main ::
  "path \<Rightarrow> config_file \<Rightarrow> os_env \<Rightarrow> datetime \<Rightarrow> openai_event list \<Rightarrow> openai_args
     \<Rightarrow> (abort + unit) \<times> run_state" where
  "openai_main script_dir cfg os now stream a =
     openai_run_deep_research script_dir cfg os stream (instruction a)
       (openai_output_path script_dir now a) (model a) initial_state"

section \<open>Event kinds and observations\<close>

text \<open>
  The kinds of the specification's stream events, read off the tags the two loops
  compare with, and what the claims observe of a run.
\<close>

definition gemini_is_text_delta :: "gemini_chunk \<Rightarrow> bool" where
  "gemini_is_text_delta chunk = (event_type chunk = ''content.delta'' \<and> delta_type chunk = ''text'')"

definition gemini_is_completed :: "gemini_chunk \<Rightarrow> bool" where
  "gemini_is_completed chunk = (event_type chunk = ''interaction.complete'')"

definition gemini_is_error :: "gemini_chunk \<Rightarrow> bool" where
  "gemini_is_error chunk = (event_type chunk = ''error'')"

definition openai_is_text_delta :: "openai_event \<Rightarrow> bool" where
  "openai_is_text_delta event = (ev_type event = ''response.output_text.delta'')"

definition openai_is_completed :: "openai_event \<Rightarrow> bool" where
  "openai_is_completed event = (ev_type event = ''response.completed'')"

definition openai_is_error :: "openai_event \<Rightarrow> bool" where
  "openai_is_error event = (ev_type event = ''error'')"

definition gemini_fragments :: "gemini_chunk list \<Rightarrow> string list" where
  \<comment> \<open>the fragments of the \<open>text_delta\<close> events of a sequence, in order\<close>
  "gemini_fragments stream = map delta_text (filter gemini_is_text_delta stream)"

definition openai_fragments :: "openai_event list \<Rightarrow> string list" where
  "openai_fragments stream = map delta (filter openai_is_text_delta stream)"

definition gemini_received :: "gemini_chunk list \<Rightarrow> gemini_chunk list" where
  \<comment> \<open>the events before the first \<open>error\<close> event: all of them when there is none\<close>
  "gemini_received stream = takeWhile (\<lambda>chunk. \<not> gemini_is_error chunk) stream"

definition openai_received :: "openai_event list \<Rightarrow> openai_event list" where
  "openai_received stream = takeWhile (\<lambda>event. \<not> openai_is_error event) stream"

definition gemini_accumulated :: "gemini_chunk list \<Rightarrow> string" where
  \<comment> \<open>the accumulator \<open>report\<close> when the loop over \<open>stream\<close> ends or exits\<close>
  "gemini_accumulated stream = report (snd (gemini_for stream initial_state))"

definition openai_accumulated :: "openai_event list \<Rightarrow> string" where
  "openai_accumulated stream = report (snd (openai_for stream initial_state))"

definition config_loads :: "config_file \<Rightarrow> bool" where
  \<comment> \<open>the config file is a JSON object with an \<open>api_key\<close>\<close>
  "config_loads f = (case f of Json kv \<Rightarrow> map_of kv ''api_key'' \<noteq> None | _ \<Rightarrow> False)"

definition path_components :: "string \<Rightarrow> string list" where
  \<comment> \<open>the components \<open>pathlib\<close> keeps of a relative name\<close>
  "path_components s = filter (\<lambda>x. x \<noteq> [] \<and> x \<noteq> ''.'') (split_sep CHR ''/'' s)"

definition plain_name :: "string \<Rightarrow> bool" where
  \<comment> \<open>a relative name with no empty and no \<open>.\<close> component\<close>
  "plain_name s = (list_all (\<lambda>x. x \<noteq> [] \<and> x \<noteq> ''.'') (split_sep CHR ''/'' s))"

text \<open>Sample events and inputs for the concrete runs below.\<close>

definition gemini_event :: "string \<Rightarrow> gemini_chunk" where
  "gemini_event tag =
     \<lparr>event_type = tag, chunk_interaction_id = [], delta_type = [], delta_text = [],
      delta_content_text = []\<rparr>"

definition gemini_text :: "string \<Rightarrow> gemini_chunk" where
  "gemini_text s =
     \<lparr>event_type = ''content.delta'', chunk_interaction_id = [], delta_type = ''text'',
      delta_text = s, delta_content_text = []\<rparr>"

definition openai_evt :: "string \<Rightarrow> openai_event" where
  "openai_evt tag = \<lparr>ev_type = tag, response_id = [], item_type = [], delta = [], event_str = []\<rparr>"

definition openai_text :: "string \<Rightarrow> openai_event" where
  "openai_text s =
     \<lparr>ev_type = ''response.output_text.delta'', response_id = [], item_type = [], delta = s,
      event_str = []\<rparr>"

definition sample_dir :: path where
  "sample_dir = Path ''/'' [''opt'', ''tool'']"

definition sample_config :: config_file where
  "sample_config = Json [(''api_key'', ''k'')]"

definition sample_os :: os_env where
  \<comment> \<open>the answers of a system whose disk holds the directory \<open>/dev\<close> with the file
      \<open>null\<close> in it and nothing else, and which forbids nothing\<close>
  "sample_os =
     \<lparr>mkdir_raises =
        (\<lambda>p. if root p = ''/'' \<and> parts p = [''dev'', ''null''] then Some ''FileExistsError''
             else if root p = ''/'' \<and> take 2 (parts p) = [''dev'', ''null'']
             then Some ''NotADirectoryError''
             else None),
      write_text_raises =
        (\<lambda>p s. if parts p = [] \<or> (root p = ''/'' \<and> parts p = [''dev''])
               then Some ''IsADirectoryError''
               else if root p = ''/'' \<and> take 2 (parts p) = [''dev'', ''null'']
                       \<and> parts p \<noteq> [''dev'', ''null'']
               then Some ''NotADirectoryError''
               else None)\<rparr>"

definition sample_now :: datetime where
  "sample_now = \<lparr>year = 2025, month = 3, day = 1, hour = 10, minute = 0, second = 0\<rparr>"

definition long_instruction :: string where
  \<comment> \<open>59 letters, a space, one letter\<close>
  "long_instruction = replicate 59 CHR ''a'' @ '' b''"

section \<open>The loops: control, accumulator, file system\<close>

lemma gemini_body_fs_ops: "fs_ops (snd (gemini_body chunk st)) = fs_ops st"
  by (simp add: gemini_body_def print_def print_err_def)

lemma gemini_body_control:
  "fst (gemini_body chunk st) = (if gemini_is_error chunk then Inl (SysExit 1) else Inr ())"
  by (simp add: gemini_body_def gemini_is_error_def)

lemma gemini_body_report:
  "report (snd (gemini_body chunk st)) =
     report st @ (if gemini_is_text_delta chunk then delta_text chunk else [])"
  by (simp add: gemini_body_def gemini_is_text_delta_def print_def print_err_def)

lemma gemini_for_fs_ops: "fs_ops (snd (gemini_for stream st)) = fs_ops st"
proof (induction stream arbitrary: st)
  case Nil
  show ?case by simp
next
  case (Cons chunk stream)
  show ?case
  proof (cases "gemini_body chunk st")
    case (Pair r st')
    with gemini_body_fs_ops [of chunk st] have "fs_ops st' = fs_ops st" by simp
    with Pair Cons.IH [of st'] show ?thesis by (cases r) simp_all
  qed
qed

lemma gemini_for_control:
  "fst (gemini_for stream st) =
     (if list_ex gemini_is_error stream then Inl (SysExit 1) else Inr ())"
proof (induction stream arbitrary: st)
  case Nil
  show ?case by simp
next
  case (Cons chunk stream)
  show ?case
  proof (cases "gemini_body chunk st")
    case (Pair r st')
    with gemini_body_control [of chunk st] Cons.IH [of st'] show ?thesis
      by (cases r) (simp_all split: if_splits)
  qed
qed

lemma gemini_for_report:
  "report (snd (gemini_for stream st)) =
     report st @ concat (gemini_fragments (gemini_received stream))"
proof (induction stream arbitrary: st)
  case Nil
  show ?case by (simp add: gemini_fragments_def gemini_received_def)
next
  case (Cons chunk stream)
  show ?case
  proof (cases "gemini_body chunk st")
    case (Pair r st')
    with gemini_body_control [of chunk st] gemini_body_report [of chunk st] Cons.IH [of st']
    show ?thesis
      by (cases r)
         (auto simp: gemini_fragments_def gemini_received_def gemini_is_error_def
            gemini_is_text_delta_def split: if_splits)
  qed
qed

lemma gemini_for_append:
  "gemini_for (xs @ ys) st =
     (case gemini_for xs st of (Inl a, st') \<Rightarrow> (Inl a, st') | (Inr u, st') \<Rightarrow> gemini_for ys st')"
  by (induction xs arbitrary: st) (auto split: prod.splits sum.splits)

lemma gemini_received_all: "\<not> list_ex gemini_is_error stream \<Longrightarrow> gemini_received stream = stream"
  by (simp add: gemini_received_def list_ex_iff)

lemma openai_body_fs_ops: "fs_ops (snd (openai_body event st)) = fs_ops st"
  by (simp add: openai_body_def print_def print_err_def Let_def)

lemma openai_body_control:
  "fst (openai_body event st) = (if openai_is_error event then Inl (SysExit 1) else Inr ())"
  by (simp add: openai_body_def openai_is_error_def Let_def)

lemma openai_body_report:
  "report (snd (openai_body event st)) =
     report st @ (if openai_is_text_delta event then delta event else [])"
  by (simp add: openai_body_def openai_is_text_delta_def print_def print_err_def Let_def)

lemma openai_for_fs_ops: "fs_ops (snd (openai_for stream st)) = fs_ops st"
proof (induction stream arbitrary: st)
  case Nil
  show ?case by simp
next
  case (Cons event stream)
  show ?case
  proof (cases "openai_body event st")
    case (Pair r st')
    with openai_body_fs_ops [of event st] have "fs_ops st' = fs_ops st" by simp
    with Pair Cons.IH [of st'] show ?thesis by (cases r) simp_all
  qed
qed

lemma openai_for_control:
  "fst (openai_for stream st) =
     (if list_ex openai_is_error stream then Inl (SysExit 1) else Inr ())"
proof (induction stream arbitrary: st)
  case Nil
  show ?case by simp
next
  case (Cons event stream)
  show ?case
  proof (cases "openai_body event st")
    case (Pair r st')
    with openai_body_control [of event st] Cons.IH [of st'] show ?thesis
      by (cases r) (simp_all split: if_splits)
  qed
qed

lemma openai_for_report:
  "report (snd (openai_for stream st)) =
     report st @ concat (openai_fragments (openai_received stream))"
proof (induction stream arbitrary: st)
  case Nil
  show ?case by (simp add: openai_fragments_def openai_received_def)
next
  case (Cons event stream)
  show ?case
  proof (cases "openai_body event st")
    case (Pair r st')
    with openai_body_control [of event st] openai_body_report [of event st] Cons.IH [of st']
    show ?thesis
      by (cases r)
         (auto simp: openai_fragments_def openai_received_def openai_is_error_def
            openai_is_text_delta_def split: if_splits)
  qed
qed

lemma openai_for_append:
  "openai_for (xs @ ys) st =
     (case openai_for xs st of (Inl a, st') \<Rightarrow> (Inl a, st') | (Inr u, st') \<Rightarrow> openai_for ys st')"
  by (induction xs arbitrary: st) (auto split: prod.splits sum.splits)

lemma openai_received_all: "\<not> list_ex openai_is_error stream \<Longrightarrow> openai_received stream = stream"
  by (simp add: openai_received_def list_ex_iff)

section \<open>A whole run\<close>

lemma save_report_fs_ops:
  "fs_ops (snd (save_report os out st)) =
     fs_ops st @
       (if report st = [] \<or> mkdir_raises os (parent out) \<noteq> None then []
        else if write_text_raises os out (report st) \<noteq> None then [Mkdir (parent out)]
        else [Mkdir (parent out), WriteText out (report st)])"
  by (auto simp: save_report_def print_def print_err_def Let_def split: option.splits)

lemma save_report_exit:
  "exit_code (fst (save_report os out st)) =
     (if report st \<noteq> [] \<and> mkdir_raises os (parent out) = None
         \<and> write_text_raises os out (report st) = None then 0 else 1)"
  by (auto simp: save_report_def exit_code_def Let_def split: option.splits)

lemma gemini_run_config_fails:
  "\<not> config_loads cfg \<Longrightarrow>
     exit_code (fst (gemini_run_deep_research sd cfg os stream instr out st)) = 1 \<and>
     fs_ops (snd (gemini_run_deep_research sd cfg os stream instr out st)) = fs_ops st"
  by (auto simp: gemini_run_deep_research_def load_config_def config_loads_def exit_code_def
        print_err_def split: config_file.splits option.splits)

lemma gemini_run_error:
  assumes "config_loads cfg" and "list_ex gemini_is_error stream"
  shows "exit_code (fst (gemini_run_deep_research sd cfg os stream instr out st)) = 1 \<and>
         fs_ops (snd (gemini_run_deep_research sd cfg os stream instr out st)) = fs_ops st"
proof -
  from assms(1) obtain kv key where cfg: "cfg = Json kv" "map_of kv ''api_key'' = Some key"
    by (auto simp: config_loads_def split: config_file.splits)
  define st4 where
    "st4 = (print (''Instruction: '' @ instr @ nl) nl (print ''Starting deep research...'' nl st))
             \<lparr>interaction_id := None, report := []\<rparr>"
  obtain r st5 where loop: "gemini_for stream st4 = (r, st5)" by (cases "gemini_for stream st4")
  from gemini_for_control [of stream st4] loop assms(2) have r: "r = Inl (SysExit 1)" by simp
  from gemini_for_fs_ops [of stream st4] loop have "fs_ops st5 = fs_ops st"
    by (simp add: st4_def print_def)
  with cfg loop r show ?thesis
    by (simp add: gemini_run_deep_research_def load_config_def exit_code_def st4_def)
qed

lemma gemini_run_no_error:
  assumes "config_loads cfg" and "\<not> list_ex gemini_is_error stream"
  shows "\<exists>st5. gemini_run_deep_research sd cfg os stream instr out st = save_report os out st5 \<and>
           fs_ops st5 = fs_ops st \<and> report st5 = concat (gemini_fragments stream)"
proof -
  from assms(1) obtain kv key where cfg: "cfg = Json kv" "map_of kv ''api_key'' = Some key"
    by (auto simp: config_loads_def split: config_file.splits)
  define st4 where
    "st4 = (print (''Instruction: '' @ instr @ nl) nl (print ''Starting deep research...'' nl st))
             \<lparr>interaction_id := None, report := []\<rparr>"
  obtain r st5 where loop: "gemini_for stream st4 = (r, st5)" by (cases "gemini_for stream st4")
  from gemini_for_control [of stream st4] loop assms(2) have r: "r = Inr ()" by simp
  from gemini_for_fs_ops [of stream st4] loop have ops: "fs_ops st5 = fs_ops st"
    by (simp add: st4_def print_def)
  from gemini_for_report [of stream st4] loop gemini_received_all [OF assms(2)]
  have rep: "report st5 = concat (gemini_fragments stream)"
    by (simp add: st4_def)
  from cfg loop r
  have "gemini_run_deep_research sd cfg os stream instr out st = save_report os out st5"
    by (simp add: gemini_run_deep_research_def load_config_def st4_def)
  with ops rep show ?thesis by blast
qed

lemma openai_run_config_fails:
  "\<not> config_loads cfg \<Longrightarrow>
     exit_code (fst (openai_run_deep_research sd cfg os stream instr out mdl st)) = 1 \<and>
     fs_ops (snd (openai_run_deep_research sd cfg os stream instr out mdl st)) = fs_ops st"
  by (auto simp: openai_run_deep_research_def load_config_def config_loads_def exit_code_def
        print_err_def split: config_file.splits option.splits)

lemma openai_run_error:
  assumes "config_loads cfg" and "list_ex openai_is_error stream"
  shows "exit_code (fst (openai_run_deep_research sd cfg os stream instr out mdl st)) = 1 \<and>
         fs_ops (snd (openai_run_deep_research sd cfg os stream instr out mdl st)) = fs_ops st"
proof -
  from assms(1) obtain kv key where cfg: "cfg = Json kv" "map_of kv ''api_key'' = Some key"
    by (auto simp: config_loads_def split: config_file.splits)
  define st4 where
    "st4 = (print (''Instruction: '' @ instr @ nl) nl
              (print (''Starting deep research with '' @ mdl @ ''...'') nl st))\<lparr>report := []\<rparr>"
  obtain r st5 where loop: "openai_for stream st4 = (r, st5)" by (cases "openai_for stream st4")
  from openai_for_control [of stream st4] loop assms(2) have r: "r = Inl (SysExit 1)" by simp
  from openai_for_fs_ops [of stream st4] loop have "fs_ops st5 = fs_ops st"
    by (simp add: st4_def print_def)
  with cfg loop r show ?thesis
    by (simp add: openai_run_deep_research_def load_config_def exit_code_def st4_def)
qed

lemma openai_run_no_error:
  assumes "config_loads cfg" and "\<not> list_ex openai_is_error stream"
  shows "\<exists>st5. openai_run_deep_research sd cfg os stream instr out mdl st = save_report os out st5 \<and>
           fs_ops st5 = fs_ops st \<and> report st5 = concat (openai_fragments stream)"
proof -
  from assms(1) obtain kv key where cfg: "cfg = Json kv" "map_of kv ''api_key'' = Some key"
    by (auto simp: config_loads_def split: config_file.splits)
  define st4 where
    "st4 = (print (''Instruction: '' @ instr @ nl) nl
              (print (''Starting deep research with '' @ mdl @ ''...'') nl st))\<lparr>report := []\<rparr>"
  obtain r st5 where loop: "openai_for stream st4 = (r, st5)" by (cases "openai_for stream st4")
  from openai_for_control [of stream st4] loop assms(2) have r: "r = Inr ()" by simp
  from openai_for_fs_ops [of stream st4] loop have ops: "fs_ops st5 = fs_ops st"
    by (simp add: st4_def print_def)
  from openai_for_report [of stream st4] loop openai_received_all [OF assms(2)]
  have rep: "report st5 = concat (openai_fragments stream)"
    by (simp add: st4_def)
  from cfg loop r
  have "openai_run_deep_research sd cfg os stream instr out mdl st = save_report os out st5"
    by (simp add: openai_run_deep_research_def load_config_def st4_def)
  with ops rep show ?thesis by blast
qed

lemma gemini_nonempty_fragment:
  "(concat (gemini_fragments stream) \<noteq> []) =
     list_ex (\<lambda>chunk. gemini_is_text_delta chunk \<and> delta_text chunk \<noteq> []) stream"
  by (induction stream) (auto simp: gemini_fragments_def)

lemma openai_nonempty_fragment:
  "(concat (openai_fragments stream) \<noteq> []) =
     list_ex (\<lambda>event. openai_is_text_delta event \<and> delta event \<noteq> []) stream"
  by (induction stream) (auto simp: openai_fragments_def)

lemma gemini_run_summary:
  "exit_code (fst (gemini_run_deep_research sd cfg os stream instr out st)) =
     (if config_loads cfg \<and> \<not> list_ex gemini_is_error stream
         \<and> concat (gemini_fragments stream) \<noteq> []
         \<and> mkdir_raises os (parent out) = None
         \<and> write_text_raises os out (concat (gemini_fragments stream)) = None then 0 else 1) \<and>
   fs_ops (snd (gemini_run_deep_research sd cfg os stream instr out st)) =
     fs_ops st @
       (if config_loads cfg \<and> \<not> list_ex gemini_is_error stream
           \<and> concat (gemini_fragments stream) \<noteq> []
        then (if mkdir_raises os (parent out) \<noteq> None then []
              else if write_text_raises os out (concat (gemini_fragments stream)) \<noteq> None
              then [Mkdir (parent out)]
              else [Mkdir (parent out), WriteText out (concat (gemini_fragments stream))])
        else [])"
proof (cases "config_loads cfg")
  case False
  with gemini_run_config_fails [of cfg sd os stream instr out st] show ?thesis by simp
next
  case True
  show ?thesis
  proof (cases "list_ex gemini_is_error stream")
    case True
    with gemini_run_error [OF \<open>config_loads cfg\<close>, of stream sd os instr out st]
    show ?thesis by simp
  next
    case False
    from gemini_run_no_error [OF True False, of sd os instr out st]
    obtain st5 where
      run: "gemini_run_deep_research sd cfg os stream instr out st = save_report os out st5"
      and ops: "fs_ops st5 = fs_ops st"
      and rep: "report st5 = concat (gemini_fragments stream)"
      by blast
    from True False show ?thesis
      by (simp only: run save_report_fs_ops save_report_exit ops rep) simp
  qed
qed

lemma openai_run_summary:
  "exit_code (fst (openai_run_deep_research sd cfg os stream instr out mdl st)) =
     (if config_loads cfg \<and> \<not> list_ex openai_is_error stream
         \<and> concat (openai_fragments stream) \<noteq> []
         \<and> mkdir_raises os (parent out) = None
         \<and> write_text_raises os out (concat (openai_fragments stream)) = None then 0 else 1) \<and>
   fs_ops (snd (openai_run_deep_research sd cfg os stream instr out mdl st)) =
     fs_ops st @
       (if config_loads cfg \<and> \<not> list_ex openai_is_error stream
           \<and> concat (openai_fragments stream) \<noteq> []
        then (if mkdir_raises os (parent out) \<noteq> None then []
              else if write_text_raises os out (concat (openai_fragments stream)) \<noteq> None
              then [Mkdir (parent out)]
              else [Mkdir (parent out), WriteText out (concat (openai_fragments stream))])
        else [])"
proof (cases "config_loads cfg")
  case False
  with openai_run_config_fails [of cfg sd os stream instr out mdl st] show ?thesis by simp
next
  case True
  show ?thesis
  proof (cases "list_ex openai_is_error stream")
    case True
    with openai_run_error [OF \<open>config_loads cfg\<close>, of stream sd os instr out mdl st]
    show ?thesis by simp
  next
    case False
    from openai_run_no_error [OF True False, of sd os instr out mdl st]
    obtain st5 where
      run: "openai_run_deep_research sd cfg os stream instr out mdl st = save_report os out st5"
      and ops: "fs_ops st5 = fs_ops st"
      and rep: "report st5 = concat (openai_fragments stream)"
      by blast
    from True False show ?thesis
      by (simp only: run save_report_fs_ops save_report_exit ops rep) simp
  qed
qed

lemmas sample_defs =
  gemini_event_def gemini_text_def openai_evt_def openai_text_def sample_dir_def
  sample_config_def sample_now_def sample_os_def

lemmas kind_defs =
  gemini_is_text_delta_def gemini_is_completed_def gemini_is_error_def
  openai_is_text_delta_def openai_is_completed_def openai_is_error_def

lemmas run_defs =
  gemini_run_deep_research_def openai_run_deep_research_def load_config_def save_report_def
  gemini_body_def openai_body_def print_def print_err_def exit_code_def initial_state_def
  parent_def Let_def

section \<open>Claims about the stream reducer\<close>

text \<open>
  C1. Claimed: the artifact is written if and only if the reducer saw a non-empty
  \<open>text_delta\<close>, reached \<open>completed\<close> with no \<open>error\<close> event before it, and the
  accumulated text is not empty at stream end; so a sequence that ends without
  \<open>completed\<close> writes nothing. Neither loop records that \<open>completed\<close> was seen: a
  stream of one \<open>text_delta\<close> and nothing else has its report written.
\<close>

theorem artifact_without_completed_counterexample:
  "filter gemini_is_completed [gemini_text ''x''] = [] \<and>
   gemini_run_deep_research sample_dir sample_config sample_os [gemini_text ''x''] ''q''
       (Path ''/'' [''out'', ''r.md'']) initial_state =
     (Inr (),
      \<lparr>stdout = [''Starting deep research...'' @ nl, ''Instruction: q'' @ nl @ nl, ''x'',
                 nl @ ''Report saved to: /out/r.md'' @ nl],
       stderr = [],
       fs_ops = [Mkdir (Path ''/'' [''out'']), WriteText (Path ''/'' [''out'', ''r.md'']) ''x''],
       interaction_id = None, report = ''x''\<rparr>) \<and>
   filter openai_is_completed [openai_text ''x''] = [] \<and>
   fs_ops (snd (openai_run_deep_research sample_dir sample_config sample_os [openai_text ''x''] ''q''
       (Path ''/'' [''out'', ''r.md'']) ''o3-deep-research'' initial_state)) =
     [Mkdir (Path ''/'' [''out'']), WriteText (Path ''/'' [''out'', ''r.md'']) ''x'']"
  by (simp add: sample_defs kind_defs run_defs str_path_def)

text \<open>
  C1, amended. A run writes the artifact if and only if the config loads, the stream
  has no \<open>error\<close> event, some \<open>text_delta\<close> fragment is not empty, and the operating
  system carries out both file system calls: the creation of the parent directory and
  the write. What it writes is the concatenation of the fragments. When the creation of
  the directory raises, nothing is done; when only the write raises, the directory has
  been created and no artifact is written. Whether a \<open>completed\<close> event occurs plays no
  part.
\<close>

theorem artifact_written_iff:
  "fs_ops (snd (gemini_run_deep_research sd cfg os gstream instr out st)) =
     fs_ops st @
       (if config_loads cfg \<and> \<not> list_ex gemini_is_error gstream
           \<and> list_ex (\<lambda>chunk. gemini_is_text_delta chunk \<and> delta_text chunk \<noteq> []) gstream
        then (if mkdir_raises os (parent out) \<noteq> None then []
              else if write_text_raises os out (concat (gemini_fragments gstream)) \<noteq> None
              then [Mkdir (parent out)]
              else [Mkdir (parent out), WriteText out (concat (gemini_fragments gstream))])
        else []) \<and>
   fs_ops (snd (openai_run_deep_research sd cfg os ostream instr out mdl st)) =
     fs_ops st @
       (if config_loads cfg \<and> \<not> list_ex openai_is_error ostream
           \<and> list_ex (\<lambda>event. openai_is_text_delta event \<and> delta event \<noteq> []) ostream
        then (if mkdir_raises os (parent out) \<noteq> None then []
              else if write_text_raises os out (concat (openai_fragments ostream)) \<noteq> None
              then [Mkdir (parent out)]
              else [Mkdir (parent out), WriteText out (concat (openai_fragments ostream))])
        else [])"
  using gemini_run_summary [of sd cfg os gstream instr out st]
    openai_run_summary [of sd cfg os ostream instr out mdl st]
  by (simp only: gemini_nonempty_fragment openai_nonempty_fragment)

theorem artifact_written_iff_witness:
  "fs_ops (snd (gemini_run_deep_research sample_dir sample_config sample_os
       [gemini_text ''a'', gemini_event ''interaction.complete''] ''q''
       (Path ''/'' [''out'', ''r.md'']) initial_state)) =
     [Mkdir (Path ''/'' [''out'']), WriteText (Path ''/'' [''out'', ''r.md'']) ''a''] \<and>
   fs_ops (snd (gemini_run_deep_research sample_dir sample_config sample_os
       [gemini_text ''a'', gemini_event ''interaction.complete''] ''q''
       (Path ''/'' []) initial_state)) =
     [Mkdir (Path ''/'' [])] \<and>
   fs_ops (snd (openai_run_deep_research sample_dir sample_config sample_os
       [openai_text ''a'', openai_evt ''error''] ''q''
       (Path ''/'' [''out'', ''r.md'']) ''o3-deep-research'' initial_state)) = []"
  using artifact_written_iff [of sample_dir sample_config sample_os
      "[gemini_text ''a'', gemini_event ''interaction.complete'']" "''q''"
      "Path ''/'' [''out'', ''r.md'']" initial_state
      "[openai_text ''a'', openai_evt ''error'']" "''o3-deep-research''"]
    artifact_written_iff [of sample_dir sample_config sample_os
      "[gemini_text ''a'', gemini_event ''interaction.complete'']" "''q''"
      "Path ''/'' []" initial_state "[]" "''o3-deep-research''"]
  by (simp add: sample_defs kind_defs config_loads_def gemini_fragments_def
        openai_fragments_def parent_def initial_state_def)

text \<open>
  Two runs that differ from the second one above in the output path only. With the
  root directory as output path, as \<open>-o /\<close> gives, the write raises; with a path
  below a file, as \<open>-o /dev/null/x\<close> gives, the creation of the parent raises. Both
  end with an uncaught exception, exit status 1, and no artifact.
\<close>

lemma unwritable_output_paths:
  "gemini_run_deep_research sample_dir sample_config sample_os
       [gemini_text ''a'', gemini_event ''interaction.complete''] ''q'' (Path ''/'' [])
       initial_state =
     (Inl (Uncaught ''IsADirectoryError''),
      \<lparr>stdout = [''Starting deep research...'' @ nl, ''Instruction: q'' @ nl @ nl, ''a'',
                 nl @ nl @ ''[Complete] Research finished.'' @ nl],
       stderr = [], fs_ops = [Mkdir (Path ''/'' [])], interaction_id = None, report = ''a''\<rparr>) \<and>
   gemini_run_deep_research sample_dir sample_config sample_os
       [gemini_text ''a'', gemini_event ''interaction.complete''] ''q''
       (Path ''/'' [''dev'', ''null'', ''x'']) initial_state =
     (Inl (Uncaught ''FileExistsError''),
      \<lparr>stdout = [''Starting deep research...'' @ nl, ''Instruction: q'' @ nl @ nl, ''a'',
                 nl @ nl @ ''[Complete] Research finished.'' @ nl],
       stderr = [], fs_ops = [], interaction_id = None, report = ''a''\<rparr>) \<and>
   exit_code (Inl (Uncaught ''IsADirectoryError'')) = 1 \<and>
   exit_code (Inl (Uncaught ''FileExistsError'')) = 1"
  by (simp add: sample_defs kind_defs run_defs)

text \<open>
  C2. Claimed: after a \<open>completed\<close> event the reducer consumes nothing more, so no
  later event changes the accumulated text, is echoed, or triggers an exit. The
  \<open>completed\<close> branch of both loops prints and falls through to the next iteration:
  a \<open>text_delta\<close> after \<open>completed\<close> is appended and echoed, and an \<open>error\<close>
  after it exits with status 1.
\<close>

theorem events_after_completed_counterexample:
  "gemini_for [gemini_event ''interaction.complete''] initial_state =
     (Inr (),
      \<lparr>stdout = [nl @ nl @ ''[Complete] Research finished.'' @ nl], stderr = [], fs_ops = [],
       interaction_id = None, report = []\<rparr>) \<and>
   gemini_for [gemini_event ''interaction.complete'', gemini_text ''b''] initial_state =
     (Inr (),
      \<lparr>stdout = [nl @ nl @ ''[Complete] Research finished.'' @ nl, ''b''], stderr = [],
       fs_ops = [], interaction_id = None, report = ''b''\<rparr>) \<and>
   fst (gemini_for [gemini_event ''interaction.complete'', gemini_event ''error''] initial_state) =
     Inl (SysExit 1) \<and>
   report (snd (openai_for [openai_evt ''response.completed''] initial_state)) = [] \<and>
   report (snd (openai_for [openai_evt ''response.completed'', openai_text ''b''] initial_state)) =
     ''b'' \<and>
   fst (openai_for [openai_evt ''response.completed'', openai_evt ''error''] initial_state) =
     Inl (SysExit 1)"
  by (simp add: sample_defs run_defs)

text \<open>
  C2, amended. A \<open>completed\<close> event prints the completion banner and changes nothing
  else; the loop then goes on with the events that follow, from that state, exactly as
  it would have without the \<open>completed\<close> event. So the accumulated text and the exit
  of a sequence are those of the sequence with the \<open>completed\<close> event removed.
\<close>

theorem completed_only_prints:
  "(gemini_is_completed c \<longrightarrow>
      gemini_for (pre @ c # post) st =
        (case gemini_for pre st of
           (Inl a, st') \<Rightarrow> (Inl a, st')
         | (Inr u, st') \<Rightarrow>
             gemini_for post (print (nl @ nl @ ''[Complete] Research finished.'') nl st')) \<and>
      report (snd (gemini_for (pre @ c # post) st)) = report (snd (gemini_for (pre @ post) st)) \<and>
      fst (gemini_for (pre @ c # post) st) = fst (gemini_for (pre @ post) st)) \<and>
   (openai_is_completed e \<longrightarrow>
      openai_for (opre @ e # opost) st =
        (case openai_for opre st of
           (Inl a, st') \<Rightarrow> (Inl a, st')
         | (Inr u, st') \<Rightarrow>
             openai_for opost (print (nl @ nl @ ''[Complete] Research finished.'') nl st')) \<and>
      report (snd (openai_for (opre @ e # opost) st)) =
        report (snd (openai_for (opre @ opost) st)) \<and>
      fst (openai_for (opre @ e # opost) st) = fst (openai_for (opre @ opost) st))"
proof -
  have g: "gemini_body c s = (Inr (), print (nl @ nl @ ''[Complete] Research finished.'') nl s)"
    if "gemini_is_completed c" for s
    using that by (simp add: gemini_body_def gemini_is_completed_def)
  have o: "openai_body e s = (Inr (), print (nl @ nl @ ''[Complete] Research finished.'') nl s)"
    if "openai_is_completed e" for s
    using that by (simp add: openai_body_def openai_is_completed_def)
  have gk: "\<not> gemini_is_error c \<and> \<not> gemini_is_text_delta c" if "gemini_is_completed c"
    using that by (simp add: kind_defs)
  have ok: "\<not> openai_is_error e \<and> \<not> openai_is_text_delta e" if "openai_is_completed e"
    using that by (simp add: kind_defs)
  have g1: "gemini_for (pre @ c # post) st =
        (case gemini_for pre st of
           (Inl a, st') \<Rightarrow> (Inl a, st')
         | (Inr u, st') \<Rightarrow>
             gemini_for post (print (nl @ nl @ ''[Complete] Research finished.'') nl st'))"
    if "gemini_is_completed c"
    using g [OF that] by (simp add: gemini_for_append split: prod.splits sum.splits)
  have o1: "openai_for (opre @ e # opost) st =
        (case openai_for opre st of
           (Inl a, st') \<Rightarrow> (Inl a, st')
         | (Inr u, st') \<Rightarrow>
             openai_for opost (print (nl @ nl @ ''[Complete] Research finished.'') nl st'))"
    if "openai_is_completed e"
    using o [OF that] by (simp add: openai_for_append split: prod.splits sum.splits)
  have g2: "gemini_fragments (gemini_received (pre @ c # post)) =
            gemini_fragments (gemini_received (pre @ post))"
    if "gemini_is_completed c"
    using gk [OF that]
    by (simp add: gemini_fragments_def gemini_received_def takeWhile_append)
  have o2: "openai_fragments (openai_received (opre @ e # opost)) =
            openai_fragments (openai_received (opre @ opost))"
    if "openai_is_completed e"
    using ok [OF that]
    by (simp add: openai_fragments_def openai_received_def takeWhile_append)
  have g3: "list_ex gemini_is_error (pre @ c # post) = list_ex gemini_is_error (pre @ post)"
    if "gemini_is_completed c"
    using gk [OF that] by (simp add: list_ex_iff)
  have o3: "list_ex openai_is_error (opre @ e # opost) = list_ex openai_is_error (opre @ opost)"
    if "openai_is_completed e"
    using ok [OF that] by (simp add: list_ex_iff)
  have g4: "report (snd (gemini_for (pre @ c # post) st)) =
            report (snd (gemini_for (pre @ post) st))"
    if "gemini_is_completed c"
    by (simp only: gemini_for_report g2 [OF that])
  have o4: "report (snd (openai_for (opre @ e # opost) st)) =
            report (snd (openai_for (opre @ opost) st))"
    if "openai_is_completed e"
    by (simp only: openai_for_report o2 [OF that])
  have g5: "fst (gemini_for (pre @ c # post) st) = fst (gemini_for (pre @ post) st)"
    if "gemini_is_completed c"
    by (simp only: gemini_for_control g3 [OF that])
  have o5: "fst (openai_for (opre @ e # opost) st) = fst (openai_for (opre @ opost) st)"
    if "openai_is_completed e"
    by (simp only: openai_for_control o3 [OF that])
  from g1 g4 g5 o1 o4 o5 show ?thesis by blast
qed

theorem completed_only_prints_witness:
  "gemini_is_completed (gemini_event ''interaction.complete'') \<and>
   report (snd (gemini_for
       ([gemini_text ''a''] @ gemini_event ''interaction.complete'' # [gemini_text ''b''])
       initial_state)) =
     report (snd (gemini_for ([gemini_text ''a''] @ [gemini_text ''b'']) initial_state)) \<and>
   openai_is_completed (openai_evt ''response.completed'') \<and>
   report (snd (openai_for
       ([openai_text ''a''] @ openai_evt ''response.completed'' # [openai_text ''b''])
       initial_state)) =
     report (snd (openai_for ([openai_text ''a''] @ [openai_text ''b'']) initial_state))"
proof -
  have g: "gemini_is_completed (gemini_event ''interaction.complete'')"
    by (simp add: gemini_is_completed_def gemini_event_def)
  have o: "openai_is_completed (openai_evt ''response.completed'')"
    by (simp add: openai_is_completed_def openai_evt_def)
  from g o
    completed_only_prints [of "gemini_event ''interaction.complete''" "[gemini_text ''a'']"
      "[gemini_text ''b'']" initial_state "openai_evt ''response.completed''"
      "[openai_text ''a'']" "[openai_text ''b'']"]
  show ?thesis by blast
qed

text \<open>
  C3. A stream with an \<open>error\<close> event at any position: the run exits with status 1
  and performs no file system operation, whatever text came before the error, and
  whatever the config file holds.
\<close>

theorem error_event_is_fatal:
  "(list_ex gemini_is_error gstream \<longrightarrow>
      exit_code (fst (gemini_run_deep_research sd cfg os gstream instr out st)) = 1 \<and>
      fs_ops (snd (gemini_run_deep_research sd cfg os gstream instr out st)) = fs_ops st) \<and>
   (list_ex openai_is_error ostream \<longrightarrow>
      exit_code (fst (openai_run_deep_research sd cfg os ostream instr out mdl st)) = 1 \<and>
      fs_ops (snd (openai_run_deep_research sd cfg os ostream instr out mdl st)) = fs_ops st)"
  using gemini_run_summary [of sd cfg os gstream instr out st]
    openai_run_summary [of sd cfg os ostream instr out mdl st]
  by simp

theorem error_event_is_fatal_witness:
  "list_ex gemini_is_error [gemini_text ''partial'', gemini_event ''error'', gemini_text ''x''] \<and>
   exit_code (fst (gemini_run_deep_research sample_dir sample_config sample_os
       [gemini_text ''partial'', gemini_event ''error'', gemini_text ''x''] ''q''
       (Path ''/'' [''out'', ''r.md'']) initial_state)) = 1 \<and>
   fs_ops (snd (gemini_run_deep_research sample_dir sample_config sample_os
       [gemini_text ''partial'', gemini_event ''error'', gemini_text ''x''] ''q''
       (Path ''/'' [''out'', ''r.md'']) initial_state)) = fs_ops initial_state \<and>
   list_ex openai_is_error [openai_text ''partial'', openai_evt ''error''] \<and>
   exit_code (fst (openai_run_deep_research sample_dir sample_config sample_os
       [openai_text ''partial'', openai_evt ''error''] ''q''
       (Path ''/'' [''out'', ''r.md'']) ''o3-deep-research'' initial_state)) = 1 \<and>
   fs_ops (snd (openai_run_deep_research sample_dir sample_config sample_os
       [openai_text ''partial'', openai_evt ''error''] ''q''
       (Path ''/'' [''out'', ''r.md'']) ''o3-deep-research'' initial_state)) = fs_ops initial_state"
proof -
  have g: "list_ex gemini_is_error
             [gemini_text ''partial'', gemini_event ''error'', gemini_text ''x'']"
    by (simp add: gemini_is_error_def gemini_event_def gemini_text_def)
  have o: "list_ex openai_is_error [openai_text ''partial'', openai_evt ''error'']"
    by (simp add: openai_is_error_def openai_evt_def openai_text_def)
  from g o
    error_event_is_fatal [of "[gemini_text ''partial'', gemini_event ''error'', gemini_text ''x'']"
      sample_dir sample_config sample_os "''q''" "Path ''/'' [''out'', ''r.md'']" initial_state
      "[openai_text ''partial'', openai_evt ''error'']" "''o3-deep-research''"]
  show ?thesis by blast
qed

text \<open>
  C4. A stream that ends in \<open>completed\<close> with the accumulator still empty: the run
  exits with status 1 and performs no file system operation, so the target file is
  neither created nor overwritten.
\<close>

theorem empty_report_is_fatal:
  "(gemini_is_completed c \<and> gemini_accumulated (pre @ [c]) = [] \<longrightarrow>
      exit_code (fst (gemini_run_deep_research sd cfg os (pre @ [c]) instr out st)) = 1 \<and>
      fs_ops (snd (gemini_run_deep_research sd cfg os (pre @ [c]) instr out st)) = fs_ops st) \<and>
   (openai_is_completed e \<and> openai_accumulated (opre @ [e]) = [] \<longrightarrow>
      exit_code (fst (openai_run_deep_research sd cfg os (opre @ [e]) instr out mdl st)) = 1 \<and>
      fs_ops (snd (openai_run_deep_research sd cfg os (opre @ [e]) instr out mdl st)) = fs_ops st)"
proof -
  have g: "concat (gemini_fragments stream) = []"
    if "gemini_accumulated stream = []" and "\<not> list_ex gemini_is_error stream" for stream
    using that gemini_for_report [of stream initial_state] gemini_received_all [of stream]
    by (simp add: gemini_accumulated_def initial_state_def)
  have o: "concat (openai_fragments stream) = []"
    if "openai_accumulated stream = []" and "\<not> list_ex openai_is_error stream" for stream
    using that openai_for_report [of stream initial_state] openai_received_all [of stream]
    by (simp add: openai_accumulated_def initial_state_def)
  have gr: "exit_code (fst (gemini_run_deep_research sd cfg os stream instr out st)) = 1 \<and>
            fs_ops (snd (gemini_run_deep_research sd cfg os stream instr out st)) = fs_ops st"
    if "gemini_accumulated stream = []" for stream
    using g [OF that] gemini_run_summary [of sd cfg os stream instr out st]
    by (cases "list_ex gemini_is_error stream") simp_all
  have orr: "exit_code (fst (openai_run_deep_research sd cfg os stream instr out mdl st)) = 1 \<and>
            fs_ops (snd (openai_run_deep_research sd cfg os stream instr out mdl st)) = fs_ops st"
    if "openai_accumulated stream = []" for stream
    using o [OF that] openai_run_summary [of sd cfg os stream instr out mdl st]
    by (cases "list_ex openai_is_error stream") simp_all
  from gr [of "pre @ [c]"] orr [of "opre @ [e]"] show ?thesis by blast
qed

theorem empty_report_is_fatal_witness:
  "gemini_is_completed (gemini_event ''interaction.complete'') \<and>
   gemini_accumulated
     ([gemini_event ''interaction.start'', gemini_text []] @ [gemini_event ''interaction.complete''])
     = [] \<and>
   exit_code (fst (gemini_run_deep_research sample_dir sample_config sample_os
     ([gemini_event ''interaction.start'', gemini_text []] @ [gemini_event ''interaction.complete''])
     ''q'' (Path ''/'' [''out'', ''r.md'']) initial_state)) = 1 \<and>
   fs_ops (snd (gemini_run_deep_research sample_dir sample_config sample_os
     ([gemini_event ''interaction.start'', gemini_text []] @ [gemini_event ''interaction.complete''])
     ''q'' (Path ''/'' [''out'', ''r.md'']) initial_state)) = fs_ops initial_state \<and>
   openai_is_completed (openai_evt ''response.completed'') \<and>
   openai_accumulated ([openai_evt ''response.created''] @ [openai_evt ''response.completed'']) = [] \<and>
   exit_code (fst (openai_run_deep_research sample_dir sample_config sample_os
     ([openai_evt ''response.created''] @ [openai_evt ''response.completed''])
     ''q'' (Path ''/'' [''out'', ''r.md'']) ''o3-deep-research'' initial_state)) = 1 \<and>
   fs_ops (snd (openai_run_deep_research sample_dir sample_config sample_os
     ([openai_evt ''response.created''] @ [openai_evt ''response.completed''])
     ''q'' (Path ''/'' [''out'', ''r.md'']) ''o3-deep-research'' initial_state)) = fs_ops initial_state"
proof -
  have g1: "gemini_is_completed (gemini_event ''interaction.complete'')"
    by (simp add: gemini_is_completed_def gemini_event_def)
  have g2: "gemini_accumulated
     ([gemini_event ''interaction.start'', gemini_text []] @ [gemini_event ''interaction.complete''])
     = []"
    by (simp add: gemini_accumulated_def sample_defs run_defs)
  have o1: "openai_is_completed (openai_evt ''response.completed'')"
    by (simp add: openai_is_completed_def openai_evt_def)
  have o2: "openai_accumulated
     ([openai_evt ''response.created''] @ [openai_evt ''response.completed'']) = []"
    by (simp add: openai_accumulated_def sample_defs run_defs)
  from g1 g2 o1 o2
    empty_report_is_fatal [of "gemini_event ''interaction.complete''"
      "[gemini_event ''interaction.start'', gemini_text []]" sample_dir sample_config sample_os
      "''q''"
      "Path ''/'' [''out'', ''r.md'']" initial_state "openai_evt ''response.completed''"
      "[openai_evt ''response.created'']" "''o3-deep-research''"]
  show ?thesis by blast
qed

text \<open>
  C7. Claimed: for every event sequence the final accumulated text is the concatenation
  of all \<open>text_delta\<close> fragments, none dropped. An \<open>error\<close> event exits the process
  inside the loop, so the fragments that follow it in the sequence are never appended:
  the sequence \<open>text_delta a\<close>, \<open>error\<close>, \<open>text_delta b\<close> accumulates \<open>a\<close>,
  not \<open>ab\<close>.
\<close>

theorem fragments_after_error_counterexample:
  "gemini_accumulated [gemini_text ''a'', gemini_event ''error'', gemini_text ''b''] = ''a'' \<and>
   concat (gemini_fragments [gemini_text ''a'', gemini_event ''error'', gemini_text ''b'']) = ''ab'' \<and>
   openai_accumulated [openai_text ''a'', openai_evt ''error'', openai_text ''b''] = ''a'' \<and>
   concat (openai_fragments [openai_text ''a'', openai_evt ''error'', openai_text ''b'']) = ''ab''"
  by (simp add: gemini_accumulated_def openai_accumulated_def gemini_fragments_def
        openai_fragments_def sample_defs kind_defs run_defs)

text \<open>
  C7, amended. Each \<open>text_delta\<close> fragment is appended to the accumulator when it is
  received: from any state, the accumulator after the loop is the accumulator before it
  followed by the fragments of the \<open>text_delta\<close> events that come before the first
  \<open>error\<close> event, in the order of the stream, none reordered, dropped or merged. A
  stream with no \<open>error\<close> event accumulates the concatenation of all its fragments.
  The fragments \<open>Hello, \<close>, \<open>world\<close>, \<open>!\<close> give \<open>Hello, world!\<close>.
\<close>

theorem fragments_appended_in_order:
  "report (snd (gemini_for gstream st)) =
     report st @ concat (gemini_fragments (gemini_received gstream)) \<and>
   (\<not> list_ex gemini_is_error gstream \<longrightarrow>
      gemini_accumulated gstream = concat (map delta_text (filter gemini_is_text_delta gstream))) \<and>
   gemini_accumulated [gemini_text ''Hello, '', gemini_text ''world'', gemini_text ''!''] =
     ''Hello, world!'' \<and>
   report (snd (openai_for ostream st)) =
     report st @ concat (openai_fragments (openai_received ostream)) \<and>
   (\<not> list_ex openai_is_error ostream \<longrightarrow>
      openai_accumulated ostream = concat (map delta (filter openai_is_text_delta ostream))) \<and>
   openai_accumulated [openai_text ''Hello, '', openai_text ''world'', openai_text ''!''] =
     ''Hello, world!''"
proof -
  have g: "gemini_accumulated gstream = concat (map delta_text (filter gemini_is_text_delta gstream))"
    if "\<not> list_ex gemini_is_error gstream"
    using gemini_for_report [of gstream initial_state] gemini_received_all [OF that]
    by (simp add: gemini_accumulated_def initial_state_def gemini_fragments_def)
  have o: "openai_accumulated ostream = concat (map delta (filter openai_is_text_delta ostream))"
    if "\<not> list_ex openai_is_error ostream"
    using openai_for_report [of ostream initial_state] openai_received_all [OF that]
    by (simp add: openai_accumulated_def initial_state_def openai_fragments_def)
  have ge: "gemini_accumulated [gemini_text ''Hello, '', gemini_text ''world'', gemini_text ''!'']
            = ''Hello, world!''"
    by (simp add: gemini_accumulated_def sample_defs run_defs)
  have oe: "openai_accumulated [openai_text ''Hello, '', openai_text ''world'', openai_text ''!'']
            = ''Hello, world!''"
    by (simp add: openai_accumulated_def sample_defs run_defs)
  from g o ge oe gemini_for_report [of gstream st] openai_for_report [of ostream st]
  show ?thesis by blast
qed

theorem fragments_appended_in_order_witness:
  "\<not> list_ex gemini_is_error
       [gemini_text ''b'', gemini_event ''interaction.complete'', gemini_text ''a'', gemini_text ''b''] \<and>
   gemini_accumulated
       [gemini_text ''b'', gemini_event ''interaction.complete'', gemini_text ''a'', gemini_text ''b'']
     = ''bab'' \<and>
   \<not> list_ex openai_is_error [openai_text ''b'', openai_text ''a'', openai_text ''b''] \<and>
   openai_accumulated [openai_text ''b'', openai_text ''a'', openai_text ''b''] = ''bab''"
proof -
  have g: "\<not> list_ex gemini_is_error
       [gemini_text ''b'', gemini_event ''interaction.complete'', gemini_text ''a'', gemini_text ''b'']"
    by (simp add: gemini_is_error_def sample_defs)
  have o: "\<not> list_ex openai_is_error [openai_text ''b'', openai_text ''a'', openai_text ''b'']"
    by (simp add: openai_is_error_def sample_defs)
  from g o
    fragments_appended_in_order [of
      "[gemini_text ''b'', gemini_event ''interaction.complete'', gemini_text ''a'', gemini_text ''b'']"
      initial_state "[openai_text ''b'', openai_text ''a'', openai_text ''b'']"]
  show ?thesis
    by (simp add: gemini_is_text_delta_def openai_is_text_delta_def sample_defs)
qed

section \<open>slugify: what every slug satisfies\<close>

lemma set_sub_runs:
  "set (sub_runs cls repl s) \<subseteq> {c \<in> set s. \<not> cls c} \<union> set repl"
proof (induction cls repl s rule: sub_runs.induct)
  case (1 cls repl)
  show ?case by simp
next
  case (2 cls repl c cs)
  show ?case
  proof (cases "cls c")
    case True
    with "2.IH"(1) have "set (sub_runs cls repl (dropWhile cls cs))
        \<subseteq> {c \<in> set (dropWhile cls cs). \<not> cls c} \<union> set repl"
      by simp
    moreover have "set (dropWhile cls cs) \<subseteq> set cs"
      by (auto dest: set_dropWhileD)
    ultimately show ?thesis using True by auto
  next
    case False
    with "2.IH"(2) show ?thesis by auto
  qed
qed

lemma set_strip: "set (strip s chars) \<subseteq> set s"
proof -
  have "set (strip s chars) \<subseteq> set (rev (dropWhile (\<lambda>c. c \<in> set chars) s))"
    unfolding strip_def set_rev by (auto dest: set_dropWhileD)
  also have "\<dots> \<subseteq> set s"
    by (auto dest: set_dropWhileD)
  finally show ?thesis .
qed

lemma set_slice_to: "set (slice_to s n) \<subseteq> set s"
  by (auto simp: slice_to_def dest: in_set_takeD)

lemma lower_char_not_upper: "\<not> is_upper (lower_char c)"
proof (cases "is_upper c")
  case False
  then show ?thesis by (simp add: lower_char_def)
next
  case True
  then have "code_point c + 32 < 256"
    by (auto simp: is_upper_def code_point_def Let_def)
  then have "code_point (char_of (code_point c + 32)) = code_point c + 32"
    by (simp add: code_point_def)
  with True show ?thesis
    by (auto simp: lower_char_def is_upper_def Let_def)
qed

lemma slug_chars:
  assumes "c \<in> set (gemini_slugify text n)"
  shows "c = CHR ''-'' \<or> (is_alnum c \<and> \<not> is_upper c)"
proof -
  define kept where
    "kept = sub_delete (\<lambda>c. \<not> (is_word c \<or> is_space c \<or> c = CHR ''-'')) (lower text)"
  from assms have "c \<in> set (sub_runs (\<lambda>c. is_space c \<or> c = CHR ''_'') ''-'' kept)"
    using set_slice_to set_strip
    unfolding gemini_slugify_def Let_def kept_def by blast
  with set_sub_runs [of "\<lambda>c. is_space c \<or> c = CHR ''_''" "''-''" kept]
  have "c = CHR ''-'' \<or> (c \<in> set kept \<and> \<not> is_space c \<and> c \<noteq> CHR ''_'')"
    by auto
  then show ?thesis
  proof
    assume "c = CHR ''-''"
    then show ?thesis by simp
  next
    assume c: "c \<in> set kept \<and> \<not> is_space c \<and> c \<noteq> CHR ''_''"
    then have "is_word c \<or> c = CHR ''-''" and "c \<in> set (lower text)"
      by (auto simp: kept_def sub_delete_def)
    moreover from \<open>c \<in> set (lower text)\<close> have "\<not> is_upper c"
      by (auto simp: lower_def lower_char_not_upper)
    ultimately show ?thesis using c by (auto simp: is_word_def)
  qed
qed

lemma slugify_same: "openai_slugify text n = gemini_slugify text n"
  by (simp add: openai_slugify_def gemini_slugify_def)

lemma slug_no_slash: "CHR ''/'' \<notin> set (gemini_slugify text n)"
proof
  assume "CHR ''/'' \<in> set (gemini_slugify text n)"
  from slug_chars [OF this] show False
    by (simp add: is_alnum_def code_point_def)
qed

lemma slug_of_long_instruction:
  "gemini_slugify long_instruction 60 = replicate 59 CHR ''a'' @ ''-''"
  by code_simp

lemma slug_of_slug_of_long_instruction:
  "gemini_slugify (replicate 59 CHR ''a'' @ ''-'') 60 = replicate 59 CHR ''a''"
  by code_simp

section \<open>Claims about slugify\<close>

text \<open>
  C5. Claimed: every slug has only lowercase alphanumeric characters and hyphens, no
  leading or trailing hyphen, and at most 60 characters. The hyphens are stripped
  before the slug is cut to \<open>max_len\<close>, so a cut that falls right after a hyphen
  leaves it at the end: the instruction of 59 letters \<open>a\<close>, a space and a \<open>b\<close> has
  the slug of 59 letters \<open>a\<close> and a hyphen.
\<close>

theorem slugify_trailing_hyphen:
  "long_instruction = replicate 59 CHR ''a'' @ '' b'' \<and>
   gemini_slugify long_instruction 60 = replicate 59 CHR ''a'' @ ''-'' \<and>
   openai_slugify long_instruction 60 = replicate 59 CHR ''a'' @ ''-'' \<and>
   last (gemini_slugify long_instruction 60) = CHR ''-'' \<and>
   last (openai_slugify long_instruction 60) = CHR ''-''"
  by (simp add: slugify_same slug_of_long_instruction) (simp add: long_instruction_def)

text \<open>
  C6. Claimed: \<open>slugify (slugify I) = slugify I\<close>. The slug of the same instruction
  ends in a hyphen, which a second application strips.
\<close>

theorem slugify_not_idempotent:
  "gemini_slugify (gemini_slugify long_instruction 60) 60 = replicate 59 CHR ''a'' \<and>
   gemini_slugify (gemini_slugify long_instruction 60) 60 \<noteq> gemini_slugify long_instruction 60 \<and>
   openai_slugify (openai_slugify long_instruction 60) 60 \<noteq> openai_slugify long_instruction 60"
  by (simp add: slugify_same slug_of_long_instruction slug_of_slug_of_long_instruction)

text \<open>
  C10. The two scripts define the same slug function, for every text and every
  \<open>max_len\<close>, and resolve the output path by the same rule: the explicit name when it
  is given and not empty, the timestamp, an underscore, the slug and \<open>.md\<close> otherwise,
  joined to the script's own output directory.
\<close>

theorem slugify_variants_agree:
  "gemini_slugify text max_len = openai_slugify text max_len \<and>
   gemini_output_path sd now a =
     truediv (gemini_OUTPUT_DIR sd)
       (if truthy (output_arg a) then the (output_arg a)
        else strftime now @ ''_'' @ gemini_slugify (instruction a) 60 @ ''.md'') \<and>
   openai_output_path sd now a =
     truediv (openai_OUTPUT_DIR sd)
       (if truthy (output_arg a) then the (output_arg a)
        else strftime now @ ''_'' @ gemini_slugify (instruction a) 60 @ ''.md'')"
  by (simp add: slugify_same gemini_output_path_def openai_output_path_def)

section \<open>Paths and timestamps: helper facts\<close>

lemma split_sep_not_Nil: "split_sep sep s \<noteq> []"
  by (induction s) (auto split: list.splits)

lemma split_sep_no_sep: "sep \<notin> set s \<Longrightarrow> split_sep sep s = [s]"
  by (induction s) auto

lemma join_sep_Cons_Cons: "join_sep sep ((c # w) # ws) = c # join_sep sep (w # ws)"
  by (cases ws) simp_all

lemma join_sep_split_sep: "join_sep [sep] (split_sep sep s) = s"
proof (induction s)
  case Nil
  show ?case by simp
next
  case (Cons c cs)
  obtain w ws where split: "split_sep sep cs = w # ws"
    using split_sep_not_Nil [of sep cs] by (cases "split_sep sep cs") auto
  with Cons show ?case
    by (simp add: join_sep_Cons_Cons)
qed

lemma join_sep_append:
  "ps \<noteq> [] \<Longrightarrow> qs \<noteq> [] \<Longrightarrow> join_sep sep (ps @ qs) = join_sep sep ps @ sep @ join_sep sep qs"
proof (induction sep ps rule: join_sep.induct)
  case (1 sep)
  then show ?case by simp
next
  case (2 sep x)
  then show ?case by (cases qs) simp_all
next
  case (3 sep x y ys)
  then show ?case by simp
qed

lemma parse_path_relative:
  "s \<noteq> [] \<Longrightarrow> hd s \<noteq> CHR ''/'' \<Longrightarrow> parse_path s = Path [] (path_components s)"
  by (cases s) (simp_all add: parse_path_def splitroot_def path_components_def)

lemma truediv_relative:
  "s \<noteq> [] \<Longrightarrow> hd s \<noteq> CHR ''/'' \<Longrightarrow>
     truediv p s = Path (root p) (parts p @ path_components s)"
  by (simp add: truediv_def parse_path_relative)

lemma path_components_single:
  "CHR ''/'' \<notin> set s \<Longrightarrow> s \<noteq> [] \<Longrightarrow> s \<noteq> ''.'' \<Longrightarrow> path_components s = [s]"
  by (simp add: path_components_def split_sep_no_sep)

lemma path_components_plain: "plain_name s \<Longrightarrow> path_components s = split_sep CHR ''/'' s"
  by (simp add: plain_name_def path_components_def list_all_iff)

lemma plain_name_relative: "plain_name s \<Longrightarrow> s \<noteq> [] \<and> hd s \<noteq> CHR ''/''"
  by (cases s) (auto simp: plain_name_def)

lemma gemini_OUTPUT_DIR_parts:
  "gemini_OUTPUT_DIR sd = Path (root sd) (parts sd @ [''gemini-deep-research_data''])"
  by (simp add: gemini_OUTPUT_DIR_def truediv_def parse_path_def splitroot_def)

lemma openai_OUTPUT_DIR_parts:
  "openai_OUTPUT_DIR sd = Path (root sd) (parts sd @ [''openai-deep-research_data''])"
  by (simp add: openai_OUTPUT_DIR_def truediv_def parse_path_def splitroot_def)

lemma str_path_append:
  "ps \<noteq> [] \<Longrightarrow> qs \<noteq> [] \<Longrightarrow>
     str_path (Path r (ps @ qs)) = str_path (Path r ps) @ ''/'' @ join_sep ''/'' qs"
  by (simp add: str_path_def join_sep_append)

lemma digit_char_code: "d < 10 \<Longrightarrow> code_point (digit_char d) = 48 + d"
  by (simp add: digit_char_def code_point_def)

lemma str_nat_digits: "c \<in> set (str_nat n) \<Longrightarrow> 48 \<le> code_point c \<and> code_point c \<le> 57"
proof (induction n rule: str_nat.induct)
  case (1 n)
  show ?case
  proof (cases "n < 10")
    case True
    with "1.prems" have "c = digit_char n" by (simp add: str_nat.simps)
    with True digit_char_code [of n] show ?thesis by simp
  next
    case False
    with "1.prems" have "c \<in> set (str_nat (n div 10)) \<or> c = digit_char (n mod 10)"
      by (subst (asm) str_nat.simps) auto
    then show ?thesis
    proof
      assume "c \<in> set (str_nat (n div 10))"
      with "1.IH" False show ?thesis by simp
    next
      assume "c = digit_char (n mod 10)"
      with digit_char_code [of "n mod 10"] show ?thesis by simp
    qed
  qed
qed

lemma str_nat_not_Nil: "str_nat n \<noteq> []"
  by (subst str_nat.simps) simp

lemma zero_pad_digits: "c \<in> set (zero_pad w n) \<Longrightarrow> 48 \<le> code_point c \<and> code_point c \<le> 57"
  using str_nat_digits [of c n] by (auto simp: zero_pad_def code_point_def)

lemma strftime_no_slash: "CHR ''/'' \<notin> set (strftime t)"
proof
  assume "CHR ''/'' \<in> set (strftime t)"
  then have "\<exists>w n. CHR ''/'' \<in> set (zero_pad w n)"
    by (auto simp: strftime_def)
  then obtain w n where "CHR ''/'' \<in> set (zero_pad w n)" by blast
  from zero_pad_digits [OF this] show False by (simp add: code_point_def)
qed

lemma digit_char_0: "CHR ''0'' = digit_char 0"
  by code_simp

lemma zero_pad_2: "n < 100 \<Longrightarrow> zero_pad 2 n = [digit_char (n div 10), digit_char (n mod 10)]"
proof (cases "n < 10")
  case True
  then show ?thesis by (simp add: zero_pad_def str_nat.simps digit_char_0)
next
  case False
  assume "n < 100"
  with False have "str_nat n = [digit_char (n div 10), digit_char (n mod 10)]"
    by (subst str_nat.simps) (simp add: str_nat.simps)
  then show ?thesis by (simp add: zero_pad_def)
qed

lemma zero_pad_4:
  assumes "1000 \<le> n" and "n < 10000"
  shows "zero_pad 4 n =
    [digit_char (n div 1000), digit_char (n div 100 mod 10), digit_char (n div 10 mod 10),
     digit_char (n mod 10)]"
proof -
  from assms have r1: "\<not> n < 10" and r2: "\<not> n div 10 < 10" and r3: "\<not> n div 100 < 10"
    and r4: "n div 1000 < 10"
    by simp_all
  have d1: "n div 10 div 10 = n div 100" and d2: "n div 100 div 10 = n div 1000"
    by (simp_all add: div_mult2_eq [symmetric])
  have a: "str_nat n = str_nat (n div 10) @ [digit_char (n mod 10)]"
    using r1 by (subst str_nat.simps) simp
  have b: "str_nat (n div 10) = str_nat (n div 100) @ [digit_char (n div 10 mod 10)]"
    using r2 d1 by (subst str_nat.simps) simp
  have c: "str_nat (n div 100) = str_nat (n div 1000) @ [digit_char (n div 100 mod 10)]"
    using r3 d2 by (subst str_nat.simps) simp
  have d: "str_nat (n div 1000) = [digit_char (n div 1000)]"
    using r4 by (subst str_nat.simps) simp
  show ?thesis by (simp add: zero_pad_def a b c d)
qed

lemma generated_name_single:
  "truediv p (strftime t @ ''_'' @ gemini_slugify text n @ ''.md'') =
     Path (root p) (parts p @ [strftime t @ ''_'' @ gemini_slugify text n @ ''.md''])"
proof -
  define name where "name = strftime t @ ''_'' @ gemini_slugify text n @ ''.md''"
  have slash: "CHR ''/'' \<notin> set name"
    using strftime_no_slash [of t] slug_no_slash [of _ n] by (simp add: name_def)
  have ne: "name \<noteq> []" by (simp add: name_def)
  with slash have hd: "hd name \<noteq> CHR ''/''" by (cases name) auto
  have "length name \<ge> 4" by (simp add: name_def)
  then have dot: "name \<noteq> ''.''" by auto
  from truediv_relative [OF ne hd, of p] path_components_single [OF slash ne dot]
  show ?thesis by (simp add: name_def)
qed

lemma slug_of_example:
  "gemini_slugify ''Impact of tariffs on semiconductor supply chains'' 60 =
     ''impact-of-tariffs-on-semiconductor-supply-chains''"
  by code_simp

lemma strftime_sample_now: "strftime sample_now = ''20250301_100000''"
  by code_simp

section \<open>Claims about the output path resolver\<close>

text \<open>
  C8. Claimed: every explicitly supplied output filename is used verbatim, relative to
  the output directory. Two kinds of supplied names are not: the empty string, which
  \<open>if args.output\<close> takes as no name at all, so that the generated name is used; and a
  name with a root of its own, which replaces the output directory when joined to it.
\<close>

theorem explicit_filename_counterexample:
  "gemini_OUTPUT_DIR sample_dir = Path ''/'' [''opt'', ''tool'', ''gemini-deep-research_data''] \<and>
   gemini_output_path sample_dir sample_now \<lparr>instruction = ''q'', output_arg = Some ''/tmp/x.md''\<rparr>
     = Path ''/'' [''tmp'', ''x.md''] \<and>
   gemini_output_path sample_dir sample_now \<lparr>instruction = ''q'', output_arg = Some []\<rparr>
     = Path ''/'' [''opt'', ''tool'', ''gemini-deep-research_data'', ''20250301_100000_q.md''] \<and>
   openai_OUTPUT_DIR sample_dir = Path ''/'' [''opt'', ''tool'', ''openai-deep-research_data''] \<and>
   openai_output_path sample_dir sample_now \<lparr>instruction = ''q'', output_arg = Some ''/tmp/x.md''\<rparr>
     = Path ''/'' [''tmp'', ''x.md'']"
  by code_simp

text \<open>
  C8, amended. An explicit output filename that is not empty and does not start with a
  slash is resolved to the output directory followed by the components of the name,
  whatever the instruction and the clock: nothing is replaced in the name and no
  extension is added. When no component of the name is empty or \<open>.\<close>, the path reads
  as the output directory, a slash, and the name verbatim.
\<close>

theorem explicit_filename:
  "(output_arg a = Some name \<and> name \<noteq> [] \<and> hd name \<noteq> CHR ''/'' \<longrightarrow>
      gemini_output_path sd now a =
        Path (root (gemini_OUTPUT_DIR sd)) (parts (gemini_OUTPUT_DIR sd) @ path_components name) \<and>
      openai_output_path sd now a =
        Path (root (openai_OUTPUT_DIR sd)) (parts (openai_OUTPUT_DIR sd) @ path_components name)) \<and>
   (output_arg a = Some name \<and> plain_name name \<longrightarrow>
      str_path (gemini_output_path sd now a) = str_path (gemini_OUTPUT_DIR sd) @ ''/'' @ name \<and>
      str_path (openai_output_path sd now a) = str_path (openai_OUTPUT_DIR sd) @ ''/'' @ name)"
proof -
  have rel: "gemini_output_path sd now a =
        Path (root (gemini_OUTPUT_DIR sd)) (parts (gemini_OUTPUT_DIR sd) @ path_components name) \<and>
      openai_output_path sd now a =
        Path (root (openai_OUTPUT_DIR sd)) (parts (openai_OUTPUT_DIR sd) @ path_components name)"
    if "output_arg a = Some name" and "name \<noteq> []" and "hd name \<noteq> CHR ''/''"
    using that
    by (simp add: gemini_output_path_def openai_output_path_def truthy_def truediv_relative)
  have plain: "str_path (gemini_output_path sd now a) = str_path (gemini_OUTPUT_DIR sd) @ ''/'' @ name \<and>
      str_path (openai_output_path sd now a) = str_path (openai_OUTPUT_DIR sd) @ ''/'' @ name"
    if a: "output_arg a = Some name" and p: "plain_name name"
  proof -
    from plain_name_relative [OF p] have ne: "name \<noteq> []" and hd: "hd name \<noteq> CHR ''/''"
      by simp_all
    have comps: "path_components name \<noteq> []"
      using split_sep_not_Nil [of "CHR ''/''" name] by (simp add: path_components_plain [OF p])
    have join: "join_sep ''/'' (path_components name) = name"
      by (simp add: path_components_plain [OF p] join_sep_split_sep)
    have g: "parts (gemini_OUTPUT_DIR sd) \<noteq> []" and o: "parts (openai_OUTPUT_DIR sd) \<noteq> []"
      by (simp_all add: gemini_OUTPUT_DIR_parts openai_OUTPUT_DIR_parts)
    from rel [OF a ne hd] str_path_append [OF g comps] str_path_append [OF o comps] join
    show ?thesis by simp
  qed
  from rel plain show ?thesis by blast
qed

theorem explicit_filename_witness:
  "output_arg \<lparr>instruction = ''q'', output_arg = Some ''notes/my report''\<rparr> = Some ''notes/my report'' \<and>
   ''notes/my report'' \<noteq> [] \<and> hd ''notes/my report'' \<noteq> CHR ''/'' \<and> plain_name ''notes/my report'' \<and>
   gemini_output_path sample_dir sample_now \<lparr>instruction = ''q'', output_arg = Some ''notes/my report''\<rparr>
     = Path ''/'' [''opt'', ''tool'', ''gemini-deep-research_data'', ''notes'', ''my report''] \<and>
   str_path (gemini_output_path sample_dir sample_now
       \<lparr>instruction = ''q'', output_arg = Some ''notes/my report''\<rparr>)
     = ''/opt/tool/gemini-deep-research_data/notes/my report'' \<and>
   str_path (openai_output_path sample_dir sample_now
       \<lparr>instruction = ''q'', output_arg = Some ''notes/my report''\<rparr>)
     = ''/opt/tool/openai-deep-research_data/notes/my report''"
proof -
  have p: "plain_name ''notes/my report''"
    by (simp add: plain_name_def)
  have c: "path_components ''notes/my report'' = [''notes'', ''my report'']"
    by (simp add: path_components_def)
  have g: "str_path (gemini_OUTPUT_DIR sample_dir) = ''/opt/tool/gemini-deep-research_data''"
    and o: "str_path (openai_OUTPUT_DIR sample_dir) = ''/opt/tool/openai-deep-research_data''"
    by (simp_all add: gemini_OUTPUT_DIR_parts openai_OUTPUT_DIR_parts sample_dir_def str_path_def)
  from p c g o
    explicit_filename [of "\<lparr>instruction = ''q'', output_arg = Some ''notes/my report''\<rparr>"
      "''notes/my report''" sample_dir sample_now]
  show ?thesis
    by (simp add: gemini_OUTPUT_DIR_parts openai_OUTPUT_DIR_parts sample_dir_def str_path_def)
qed

text \<open>
  C9. With no explicit output name (none, or the empty string) the path is the output
  directory followed by the one component timestamp, underscore, slug, \<open>.md\<close>. The
  timestamp of a clock with a four-digit year is the digits \<open>YYYYMMDD\<close>, an
  underscore, and the digits \<open>HHMMSS\<close>. The instruction
  \<open>Impact of tariffs on semiconductor supply chains\<close> at 2025-03-01 10:00:00 gives
  \<open>20250301_100000_impact-of-tariffs-on-semiconductor-supply-chains.md\<close>.
\<close>

theorem generated_filename:
  "(\<not> truthy (output_arg a) \<longrightarrow>
      gemini_output_path sd now a =
        Path (root (gemini_OUTPUT_DIR sd))
          (parts (gemini_OUTPUT_DIR sd)
             @ [strftime now @ ''_'' @ gemini_slugify (instruction a) 60 @ ''.md'']) \<and>
      openai_output_path sd now a =
        Path (root (openai_OUTPUT_DIR sd))
          (parts (openai_OUTPUT_DIR sd)
             @ [strftime now @ ''_'' @ openai_slugify (instruction a) 60 @ ''.md''])) \<and>
   (1000 \<le> year now \<and> year now < 10000 \<and> month now < 100 \<and> day now < 100 \<and> hour now < 100
      \<and> minute now < 100 \<and> second now < 100 \<longrightarrow>
      strftime now =
        [digit_char (year now div 1000), digit_char (year now div 100 mod 10),
         digit_char (year now div 10 mod 10), digit_char (year now mod 10),
         digit_char (month now div 10), digit_char (month now mod 10),
         digit_char (day now div 10), digit_char (day now mod 10),
         CHR ''_'',
         digit_char (hour now div 10), digit_char (hour now mod 10),
         digit_char (minute now div 10), digit_char (minute now mod 10),
         digit_char (second now div 10), digit_char (second now mod 10)]) \<and>
   gemini_output_path sample_dir sample_now
       \<lparr>instruction = ''Impact of tariffs on semiconductor supply chains'', output_arg = None\<rparr> =
     Path ''/'' [''opt'', ''tool'', ''gemini-deep-research_data'',
       ''20250301_100000_impact-of-tariffs-on-semiconductor-supply-chains.md''] \<and>
   openai_output_path sample_dir sample_now
       \<lparr>instruction = ''Impact of tariffs on semiconductor supply chains'', output_arg = None\<rparr> =
     Path ''/'' [''opt'', ''tool'', ''openai-deep-research_data'',
       ''20250301_100000_impact-of-tariffs-on-semiconductor-supply-chains.md'']"
proof -
  have gen: "gemini_output_path sd' now' a' =
        Path (root (gemini_OUTPUT_DIR sd'))
          (parts (gemini_OUTPUT_DIR sd')
             @ [strftime now' @ ''_'' @ gemini_slugify (instruction a') 60 @ ''.md'']) \<and>
      openai_output_path sd' now' a' =
        Path (root (openai_OUTPUT_DIR sd'))
          (parts (openai_OUTPUT_DIR sd')
             @ [strftime now' @ ''_'' @ openai_slugify (instruction a') 60 @ ''.md''])"
    if "\<not> truthy (output_arg a')" for sd' now' and a' :: "'b args_scheme"
    using that
    by (simp only: gemini_output_path_def openai_output_path_def slugify_same
          generated_name_single Let_def if_False simp_thms)
  have fmt: "strftime now =
        [digit_char (year now div 1000), digit_char (year now div 100 mod 10),
         digit_char (year now div 10 mod 10), digit_char (year now mod 10),
         digit_char (month now div 10), digit_char (month now mod 10),
         digit_char (day now div 10), digit_char (day now mod 10),
         CHR ''_'',
         digit_char (hour now div 10), digit_char (hour now mod 10),
         digit_char (minute now div 10), digit_char (minute now mod 10),
         digit_char (second now div 10), digit_char (second now mod 10)]"
    if "1000 \<le> year now \<and> year now < 10000 \<and> month now < 100 \<and> day now < 100 \<and> hour now < 100
      \<and> minute now < 100 \<and> second now < 100"
    using that by (simp add: strftime_def zero_pad_2 zero_pad_4)
  have "\<not> truthy (output_arg
      \<lparr>instruction = ''Impact of tariffs on semiconductor supply chains'', output_arg = None\<rparr>)"
    by (simp add: truthy_def)
  from gen [OF this, of sample_dir sample_now]
  have ex: "gemini_output_path sample_dir sample_now
       \<lparr>instruction = ''Impact of tariffs on semiconductor supply chains'', output_arg = None\<rparr> =
     Path ''/'' [''opt'', ''tool'', ''gemini-deep-research_data'',
       ''20250301_100000_impact-of-tariffs-on-semiconductor-supply-chains.md''] \<and>
   openai_output_path sample_dir sample_now
       \<lparr>instruction = ''Impact of tariffs on semiconductor supply chains'', output_arg = None\<rparr> =
     Path ''/'' [''opt'', ''tool'', ''openai-deep-research_data'',
       ''20250301_100000_impact-of-tariffs-on-semiconductor-supply-chains.md'']"
    by (simp add: slugify_same slug_of_example strftime_sample_now gemini_OUTPUT_DIR_parts
          openai_OUTPUT_DIR_parts sample_dir_def)
  from gen [of a sd now] fmt ex show ?thesis by blast
qed

theorem generated_filename_witness:
  "\<not> truthy (output_arg \<lparr>instruction = ''Hello,  World_x'', output_arg = None\<rparr>) \<and>
   gemini_output_path sample_dir sample_now \<lparr>instruction = ''Hello,  World_x'', output_arg = None\<rparr> =
     Path ''/'' [''opt'', ''tool'', ''gemini-deep-research_data'', ''20250301_100000_hello-world-x.md''] \<and>
   (1000 \<le> year sample_now \<and> year sample_now < 10000 \<and> month sample_now < 100
      \<and> day sample_now < 100 \<and> hour sample_now < 100 \<and> minute sample_now < 100
      \<and> second sample_now < 100) \<and>
   strftime sample_now = ''20250301_100000''"
proof -
  have t: "\<not> truthy (output_arg \<lparr>instruction = ''Hello,  World_x'', output_arg = None\<rparr>)"
    by (simp add: truthy_def)
  have r: "1000 \<le> year sample_now \<and> year sample_now < 10000 \<and> month sample_now < 100
      \<and> day sample_now < 100 \<and> hour sample_now < 100 \<and> minute sample_now < 100
      \<and> second sample_now < 100"
    by (simp add: sample_now_def)
  have s: "gemini_slugify ''Hello,  World_x'' 60 = ''hello-world-x''"
    by code_simp
  from t r
    generated_filename [of "\<lparr>instruction = ''Hello,  World_x'', output_arg = None\<rparr>"
      sample_dir sample_now]
  show ?thesis
    by (simp add: s strftime_sample_now gemini_OUTPUT_DIR_parts sample_dir_def)
qed

section \<open>slugify: the parts of the slug property that hold\<close>

lemma strip_prefix: "\<exists>zs. dropWhile (\<lambda>c. c \<in> set chars) s = strip s chars @ zs"
proof -
  define p where "p = (\<lambda>c. c \<in> set chars)"
  define y where "y = dropWhile p s"
  have "rev (dropWhile p (rev y)) @ rev (takeWhile p (rev y)) =
        rev (takeWhile p (rev y) @ dropWhile p (rev y))"
    by (simp only: rev_append)
  also have "\<dots> = rev (rev y)" by (simp only: takeWhile_dropWhile_id)
  also have "\<dots> = y" by (simp only: rev_rev_ident)
  finally have "y = rev (dropWhile p (rev y)) @ rev (takeWhile p (rev y))" by (rule sym)
  then show ?thesis unfolding strip_def p_def y_def by blast
qed

lemma strip_hd: "strip s chars \<noteq> [] \<Longrightarrow> hd (strip s chars) \<notin> set chars"
proof -
  assume ne: "strip s chars \<noteq> []"
  obtain zs where z: "dropWhile (\<lambda>c. c \<in> set chars) s = strip s chars @ zs"
    using strip_prefix by blast
  with ne have "dropWhile (\<lambda>c. c \<in> set chars) s \<noteq> []" by simp
  from hd_dropWhile [OF this] z ne show ?thesis by simp
qed

lemma strip_last: "strip s chars \<noteq> [] \<Longrightarrow> last (strip s chars) \<notin> set chars"
proof -
  define p where "p = (\<lambda>c. c \<in> set chars)"
  define y where "y = rev (dropWhile p s)"
  assume "strip s chars \<noteq> []"
  then have ne: "dropWhile p y \<noteq> []" by (simp add: strip_def p_def y_def)
  from hd_dropWhile [OF ne] have "\<not> p (hd (dropWhile p y))" .
  moreover from ne have "last (rev (dropWhile p y)) = hd (dropWhile p y)"
    by (simp add: last_rev)
  ultimately show ?thesis by (simp add: strip_def p_def y_def)
qed

lemma strip_id:
  "s \<noteq> [] \<Longrightarrow> hd s \<notin> set chars \<Longrightarrow> last s \<notin> set chars \<Longrightarrow> strip s chars = s"
proof -
  assume ne: "s \<noteq> []" and h: "hd s \<notin> set chars" and l: "last s \<notin> set chars"
  from ne h have a: "dropWhile (\<lambda>c. c \<in> set chars) s = s" by (cases s) simp_all
  from ne l have "hd (rev s) \<notin> set chars" by (simp add: hd_rev)
  with ne have "dropWhile (\<lambda>c. c \<in> set chars) (rev s) = rev s" by (cases "rev s") simp_all
  with a show ?thesis by (simp add: strip_def)
qed

lemma sub_runs_id: "\<forall>c \<in> set s. \<not> cls c \<Longrightarrow> sub_runs cls repl s = s"
  by (induction s) simp_all

lemma alnum_not_space: "is_alnum c \<Longrightarrow> \<not> is_space c"
  unfolding is_alnum_def is_space_def Let_def by arith

lemma hyphen_kind:
  "\<not> is_alnum CHR ''-'' \<and> \<not> is_space CHR ''-'' \<and> \<not> is_upper CHR ''-'' \<and> \<not> is_alnum CHR ''_''"
  by (simp add: is_alnum_def is_space_def is_upper_def code_point_def)

lemma lower_id: "\<forall>c \<in> set s. \<not> is_upper c \<Longrightarrow> lower s = s"
  by (induction s) (simp_all add: lower_def lower_char_def)

lemma slug_hd:
  assumes "gemini_slugify text 60 \<noteq> []"
  shows "hd (gemini_slugify text 60) \<noteq> CHR ''-''"
proof -
  define x where "x = sub_runs (\<lambda>c. is_space c \<or> c = CHR ''_'') ''-''
      (sub_delete (\<lambda>c. \<not> (is_word c \<or> is_space c \<or> c = CHR ''-'')) (lower text))"
  have slug: "gemini_slugify text 60 = take 60 (strip x ''-'')"
    by (simp add: gemini_slugify_def slice_to_def x_def Let_def)
  with assms have ne: "strip x ''-'' \<noteq> []" by auto
  from strip_hd [OF ne] have "hd (strip x ''-'') \<noteq> CHR ''-''" by simp
  with ne slug show ?thesis by (cases "strip x ''-''") simp_all
qed

lemma slug_last:
  assumes "gemini_slugify text 60 \<noteq> []" and "length (gemini_slugify text 60) < 60"
  shows "last (gemini_slugify text 60) \<noteq> CHR ''-''"
proof -
  define x where "x = sub_runs (\<lambda>c. is_space c \<or> c = CHR ''_'') ''-''
      (sub_delete (\<lambda>c. \<not> (is_word c \<or> is_space c \<or> c = CHR ''-'')) (lower text))"
  have slug: "gemini_slugify text 60 = take 60 (strip x ''-'')"
    by (simp add: gemini_slugify_def slice_to_def x_def Let_def)
  with assms(2) have whole: "gemini_slugify text 60 = strip x ''-''"
    by (simp add: min_def split: if_splits)
  with assms(1) have "strip x ''-'' \<noteq> []" by simp
  from strip_last [OF this] whole show ?thesis by simp
qed

lemma slug_char_kinds:
  assumes "c = CHR ''-'' \<or> (is_alnum c \<and> \<not> is_upper c)"
  shows "\<not> is_upper c" and "is_word c \<or> is_space c \<or> c = CHR ''-''"
    and "\<not> (is_space c \<or> c = CHR ''_'')"
proof -
  from assms show "\<not> is_upper c"
  proof
    assume "c = CHR ''-''"
    with hyphen_kind show ?thesis by simp
  next
    assume "is_alnum c \<and> \<not> is_upper c"
    then show ?thesis by simp
  qed
  from assms show "is_word c \<or> is_space c \<or> c = CHR ''-''"
    by (auto simp: is_word_def)
  from assms show "\<not> (is_space c \<or> c = CHR ''_'')"
  proof
    assume "c = CHR ''-''"
    with hyphen_kind show ?thesis by simp
  next
    assume a: "is_alnum c \<and> \<not> is_upper c"
    then have "\<not> is_space c" by (simp add: alnum_not_space)
    moreover from a hyphen_kind have "c \<noteq> CHR ''_''" by auto
    ultimately show ?thesis by simp
  qed
qed

lemma slugify_fixed_point:
  assumes chars: "\<forall>c \<in> set s. c = CHR ''-'' \<or> (is_alnum c \<and> \<not> is_upper c)"
    and len: "length s \<le> 60"
    and ends: "s = [] \<or> (hd s \<noteq> CHR ''-'' \<and> last s \<noteq> CHR ''-'')"
  shows "gemini_slugify s 60 = s"
proof -
  have kinds: "c = CHR ''-'' \<or> (is_alnum c \<and> \<not> is_upper c)" if "c \<in> set s" for c
    using chars that by (rule bspec)
  have up: "\<forall>c \<in> set s. \<not> is_upper c"
    using slug_char_kinds(1) [OF kinds] by (rule ballI)
  have low: "lower s = s"
    using up by (rule lower_id)
  have "\<forall>c \<in> set s. is_word c \<or> is_space c \<or> c = CHR ''-''"
    using slug_char_kinds(2) [OF kinds] by (rule ballI)
  then have keep: "sub_delete (\<lambda>c. \<not> (is_word c \<or> is_space c \<or> c = CHR ''-'')) s = s"
    by (simp add: sub_delete_def filter_id_conv)
  have "\<forall>c \<in> set s. \<not> (is_space c \<or> c = CHR ''_'')"
    using slug_char_kinds(3) [OF kinds] by (rule ballI)
  then have runs: "sub_runs (\<lambda>c. is_space c \<or> c = CHR ''_'') ''-'' s = s"
    by (rule sub_runs_id)
  have str: "strip s ''-'' = s"
  proof (cases "s = []")
    case True
    then show ?thesis by (simp add: strip_def)
  next
    case False
    with ends show ?thesis by (simp add: strip_id)
  qed
  have cut: "slice_to s 60 = s"
    using len by (simp add: slice_to_def)
  show ?thesis
    unfolding gemini_slugify_def Let_def low keep runs str cut ..
qed

lemma slug_length: "length (gemini_slugify text 60) \<le> 60"
  by (simp add: gemini_slugify_def slice_to_def Let_def)

text \<open>
  Every slug consists of hyphens and alphanumeric characters that are not upper case,
  has at most 60 characters and no leading hyphen; a slug shorter than 60 characters,
  which no cut has shortened, has no trailing hyphen either.
\<close>

theorem slug_shape:
  "(\<forall>c \<in> set (gemini_slugify text 60). c = CHR ''-'' \<or> (is_alnum c \<and> \<not> is_upper c)) \<and>
   length (gemini_slugify text 60) \<le> 60 \<and>
   (gemini_slugify text 60 \<noteq> [] \<longrightarrow> hd (gemini_slugify text 60) \<noteq> CHR ''-'') \<and>
   (gemini_slugify text 60 \<noteq> [] \<and> length (gemini_slugify text 60) < 60 \<longrightarrow>
      last (gemini_slugify text 60) \<noteq> CHR ''-'') \<and>
   openai_slugify text 60 = gemini_slugify text 60"
  using slug_chars [of _ "text" 60] slug_length [of "text"] slug_hd [of "text"]
    slug_last [of "text"] slugify_same [of "text" 60]
  by blast

theorem slug_shape_witness:
  "gemini_slugify ''Hello,  World_x'' 60 = ''hello-world-x'' \<and>
   gemini_slugify ''Hello,  World_x'' 60 \<noteq> [] \<and>
   length (gemini_slugify ''Hello,  World_x'' 60) < 60 \<and>
   hd (gemini_slugify ''Hello,  World_x'' 60) \<noteq> CHR ''-'' \<and>
   last (gemini_slugify ''Hello,  World_x'' 60) \<noteq> CHR ''-''"
proof -
  have s: "gemini_slugify ''Hello,  World_x'' 60 = ''hello-world-x''"
    by code_simp
  then have n: "gemini_slugify ''Hello,  World_x'' 60 \<noteq> []"
    and l: "length (gemini_slugify ''Hello,  World_x'' 60) < 60"
    by simp_all
  from s n l slug_shape [of "''Hello,  World_x''"] show ?thesis by blast
qed

text \<open>
  A slug that does not end in a hyphen is its own slug: applying \<open>slugify\<close> twice
  gives the same as applying it once whenever the first result has no trailing hyphen.
\<close>

theorem slugify_idempotent_without_trailing_hyphen:
  "gemini_slugify text 60 = [] \<or> last (gemini_slugify text 60) \<noteq> CHR ''-'' \<Longrightarrow>
     gemini_slugify (gemini_slugify text 60) 60 = gemini_slugify text 60 \<and>
     openai_slugify (openai_slugify text 60) 60 = openai_slugify text 60"
proof -
  assume e: "gemini_slugify text 60 = [] \<or> last (gemini_slugify text 60) \<noteq> CHR ''-''"
  have chars: "\<forall>c \<in> set (gemini_slugify text 60). c = CHR ''-'' \<or> (is_alnum c \<and> \<not> is_upper c)"
    using slug_chars [of _ "text" 60] by (rule ballI)
  have ends: "gemini_slugify text 60 = [] \<or>
      (hd (gemini_slugify text 60) \<noteq> CHR ''-'' \<and> last (gemini_slugify text 60) \<noteq> CHR ''-'')"
    using e slug_hd [of "text"] by blast
  from slugify_fixed_point [OF chars slug_length ends] show ?thesis
    by (simp add: slugify_same)
qed

theorem slugify_idempotent_without_trailing_hyphen_witness:
  "(gemini_slugify ''Hello,  World_x'' 60 = [] \<or>
      last (gemini_slugify ''Hello,  World_x'' 60) \<noteq> CHR ''-'') \<and>
   gemini_slugify (gemini_slugify ''Hello,  World_x'' 60) 60 = gemini_slugify ''Hello,  World_x'' 60"
proof -
  have s: "gemini_slugify ''Hello,  World_x'' 60 = ''hello-world-x''"
    by code_simp
  then have h: "gemini_slugify ''Hello,  World_x'' 60 = [] \<or>
      last (gemini_slugify ''Hello,  World_x'' 60) \<noteq> CHR ''-''"
    by simp
  from h slugify_idempotent_without_trailing_hyphen [OF h] show ?thesis by blast
qed

end
